theory Spec2Isabelle
  imports Main "HOL-Library.Char_ord" "HOL-Library.List_Lexorder"
begin

section \<open>Errors\<close>

text \<open>
  The exceptions raised through \<open>AZ_TestImpact_Eval\<close> and \<open>throw\<close>, each carrying its
  message.  A function of the source that may raise returns a sum whose left injection is the
  exception.
\<close>

datatype error = TargetException string | RuntimeException string

section \<open>Target list (TestImpactTargetList.h)\<close>

text \<open>
  \<open>Target::Descriptor\<close> is a template parameter of the source; the only member the list
  reads is \<open>m_name\<close>.  The record is extensible, so a descriptor may carry any further
  fields.  A target is constructed from its descriptor and \<open>GetName\<close> reads the name it
  was constructed with.  Names are \<open>AZStd::string\<close>s, compared bytewise and
  lexicographically, which is the order of \<open>char list\<close> under the two imported orders.
\<close>

record Descriptor =
  m_name :: string

datatype 'a Target = Target "'a Descriptor_scheme"

fun GetName :: "'a Target \<Rightarrow> string" where
  "GetName (Target d) = m_name d"

text \<open>
  \<open>AZStd::adjacent_find\<close>: the position of the first element that satisfies the predicate
  together with its successor; \<open>None\<close> stands for the end iterator.
\<close>

fun adjacent_find :: "('a \<Rightarrow> 'a \<Rightarrow> bool) \<Rightarrow> 'a list \<Rightarrow> nat option" where
  "adjacent_find p [] = None"
| "adjacent_find p [x] = None"
| "adjacent_find p (x # y # ys) =
     (if p x y then Some 0 else map_option Suc (adjacent_find p (y # ys)))"

text \<open>
  The constructor.  \<open>AZStd::sort\<close> with the comparator \<open>lhs->m_name < rhs->m_name\<close> is
  modelled by the insertion sort \<open>sort_key\<close>; the source's sort is not stable, but the
  order of descriptors with equal names is only visible on the path that raises.  A raised
  exception leaves no object behind: the result is the exception alone.
\<close>

definition TargetList :: "'a Descriptor_scheme list \<Rightarrow> error + 'a Target list" where
  "TargetList descriptors =
     (if descriptors = [] then Inl (TargetException ''Target list is empty'')
      else
        let sorted_descriptors = sort_key m_name descriptors;
            duplicateElement = adjacent_find (\<lambda>lhs rhs. m_name lhs = m_name rhs) sorted_descriptors
        in if duplicateElement \<noteq> None
           then Inl (TargetException ''Target list contains duplicate targets'')
           else Inr (map Target sorted_descriptors))"

text \<open>
  \<open>std::equal_range\<close> is the pair of \<open>std::lower_bound\<close> and \<open>std::upper_bound\<close>, each a
  binary search for a partition point: the loop halves the remaining length \<open>len\<close> of the
  range starting at \<open>first\<close>.
\<close>

function partition_point :: "('a \<Rightarrow> bool) \<Rightarrow> 'a list \<Rightarrow> nat \<Rightarrow> nat \<Rightarrow> nat" where
  "partition_point p xs first len =
     (if len = 0 then first
      else if p (xs ! (first + len div 2))
           then partition_point p xs (first + len div 2 + 1) (len - len div 2 - 1)
           else partition_point p xs first (len div 2))"
  by pat_completeness auto
termination
  by (relation "measure (\<lambda>(p, xs, first, len). len)") auto

declare partition_point.simps [simp del]

definition lower_bound :: "'a Target list \<Rightarrow> string \<Rightarrow> nat" where
  "lower_bound m_targets name =
     partition_point (\<lambda>target. GetName target < name) m_targets 0 (length m_targets)"

definition upper_bound :: "'a Target list \<Rightarrow> string \<Rightarrow> nat" where
  "upper_bound m_targets name =
     partition_point (\<lambda>target. \<not> name < GetName target) m_targets 0 (length m_targets)"

text \<open>
  \<open>GetTarget\<close> returns a pointer into \<open>m_targets\<close> or \<open>nullptr\<close>; the model returns the
  target pointed to, or \<open>None\<close>.
\<close>

definition GetTarget :: "'a Target list \<Rightarrow> string \<Rightarrow> 'a Target option" where
  "GetTarget m_targets name =
     (let first = lower_bound m_targets name;
          second = upper_bound m_targets name
      in if first \<noteq> second then Some (m_targets ! first) else None)"

text \<open>
  A message is formatted from \<open>c_str()\<close> of a string through \<open>%s\<close>, which reads the
  characters before the first NUL byte.
\<close>

definition c_str :: "string \<Rightarrow> string" where
  "c_str s = takeWhile (\<lambda>c. c \<noteq> CHR 0x00) s"

definition GetTargetOrThrow :: "'a Target list \<Rightarrow> string \<Rightarrow> error + 'a Target" where
  "GetTargetOrThrow m_targets name =
     (case GetTarget m_targets name of
        Some target \<Rightarrow> Inr target
      | None \<Rightarrow> Inl (TargetException (''Couldn't find target '' @ c_str name)))"

definition HasTarget :: "'a Target list \<Rightarrow> string \<Rightarrow> bool" where
  "HasTarget m_targets name = (GetTarget m_targets name \<noteq> None)"

section \<open>Policies, jobs and the log\<close>

text \<open>
  Modelled from the spec: the enumerations \<open>Client::TestRunResult\<close>, \<open>TestSequenceResult\<close>
  and those of the policies are declared in headers that are not among the source files.
  Their members are those the data model of the specification and the uses in
  \<open>TestImpactNativeRuntime.cpp\<close> name.  Members of different enumerations that share a name
  are told apart by the qualified name, as in the source.
\<close>

datatype TestRunResult = NotRun | FailedToExecute | Timeout | AllTestsPass | TestFailures

datatype TestSequenceResult = Success | Failure | Timeout

datatype FailedTestCoverage = Discard | Keep

datatype IntegrityFailure = Abort | Continue

datatype DynamicDependencyMapPolicy = Discard | Update

text \<open>
  Modelled from the spec: the job classes of the test engine are not among the source files.
  \<open>TestEngineJob\<close> is what every job carries, "target name, command string, ... a
  \<open>TestRunResult\<close>", and an instrumented run adds "an optional \<open>TestCoverage\<close> (a list of
  absolute source paths)", here the sources \<open>GetSourcesCovered\<close> lists; the fields are named
  after the accessors the source calls.  Start time and duration of a job are only copied into
  reports and are left out.

  A test target is held by the runtime as a pointer into the test target list.  Names are
  unique in a target list, so the model identifies the pointer with the name of the target
  it points to; \<open>ExtractTestTargetNames\<close> is then the identity.
\<close>

record TestEngineJob =
  GetTestTarget :: string
  GetCommandString :: string
  GetTestResult :: TestRunResult

record TestEngineInstrumentedRun = TestEngineJob +
  GetCoverge :: "string list option"

text \<open>
  The calls of \<open>AZ_Warning\<close> and \<open>AZ_Error\<close>, in order.  An entry holds what the call is
  about, not the text printed: the source whose path the warning formats, and the string
  \<open>what()\<close> of the exception the error passes on.
\<close>

datatype LogEntry = AZ_Warning string | AZ_Error string

fun what :: "error \<Rightarrow> string" where
  "what (TargetException msg) = msg"
| "what (RuntimeException msg) = msg"

section \<open>Dynamic dependency map (interface)\<close>

type_synonym SourceCoveringTests = "string \<times> string set"

type_synonym SourceCoveringTestsList = "SourceCoveringTests list"

definition GetNumSources :: "SourceCoveringTestsList \<Rightarrow> nat" where
  "GetNumSources sourceCoveringTestsList = length sourceCoveringTestsList"

text \<open>
  Modelled from the spec: the class \<open>DynamicDependencyMap\<close> is not among the source files.
  The model keeps the covering relation \<open>source \<rightarrow> set<test_target_name>\<close> as a list of
  entries; the inverse mapping is read off the same entries, so the two directions agree by
  construction.
\<close>

type_synonym DynamicDependencyMap = "(string \<times> string set) list"

text \<open>
  Modelled from the spec: \<open>RemoveTestTargetFromSourceCoverage(testTarget)\<close> of the missing
  class "erases the name from every forward-image set; drops source keys whose set becomes
  empty; clears the inverse entry".
\<close>

definition RemoveTestTargetFromSourceCoverage ::
  "string \<Rightarrow> DynamicDependencyMap \<Rightarrow> DynamicDependencyMap" where
  "RemoveTestTargetFromSourceCoverage testTarget ddm =
     filter (\<lambda>(source, tests). tests \<noteq> {}) (map (\<lambda>(source, tests). (source, tests - {testTarget})) ddm)"


text \<open>
  Modelled from the spec: \<open>GetNotCoveringTests()\<close> of the missing class returns "all test
  targets whose inverse entry is absent or empty, in target-list order".
\<close>

definition GetNotCoveringTests :: "string list \<Rightarrow> DynamicDependencyMap \<Rightarrow> string list" where
  "GetNotCoveringTests testTargets ddm =
     filter (\<lambda>testTarget. \<forall>(source, tests) \<in> set ddm. testTarget \<notin> tests) testTargets"

text \<open>
  Modelled from the spec: \<open>ExportSourceCoverage()\<close> of the missing class "returns the current
  list, sources sorted lexicographically".  The covering tests of an entry are a set in the
  model, so their order inside an entry is not represented.
\<close>

definition ExportSourceCoverage :: "DynamicDependencyMap \<Rightarrow> SourceCoveringTestsList" where
  "ExportSourceCoverage ddm = sort_key fst ddm"

section \<open>Collaborators outside the source files\<close>

text \<open>
  An invocation of the test engine: the test targets, the test target timeout and the global
  timeout it was given.  Durations are \<open>AZStd::chrono::milliseconds\<close>, signed 64-bit counts
  of milliseconds; the model counts in unbounded integers, the elapsed times being measured
  and the only arithmetic on them a sum of two and a difference guarded by a comparison.
  The engine runs child
  processes; what it answers may depend on everything it was asked before, so the state of
  the engine is the list of its invocations so far and its answer is a function of that
  list, the current invocation last.  Beside the sequence result and the jobs, the answer
  gives the time the caller's \<open>Timer\<close> measures around the invocation.
\<close>

datatype EngineCall =
    InstrumentedRunCall "string list" "int option" "int option"
  | RegularRunCall "string list" "int option" "int option"

fun call_targets :: "EngineCall \<Rightarrow> string list" where
  "call_targets (InstrumentedRunCall testTargets testTargetTimeout globalTimeout) = testTargets"
| "call_targets (RegularRunCall testTargets testTargetTimeout globalTimeout) = testTargets"

fun call_globalTimeout :: "EngineCall \<Rightarrow> int option" where
  "call_globalTimeout (InstrumentedRunCall testTargets testTargetTimeout globalTimeout) = globalTimeout"
| "call_globalTimeout (RegularRunCall testTargets testTargetTimeout globalTimeout) = globalTimeout"

type_synonym TestEngine = "EngineCall list"

text \<open>
  The parts of the repository the runtime calls but that are not among the source files, as
  parameters of the model:
  \<^item> \<open>RepoPath::IsRelativeTo\<close> and \<open>RepoPath::LexicallyRelative\<close>, applied to a source path
    and the repository root;
  \<^item> \<open>DynamicDependencyMap::ReplaceSourceCoverage\<close>, of which the specification fixes no more
    than that it rebuilds the map from the given list;
  \<^item> the failure of \<open>WriteFileContents\<close>, if any, as the message of the exception it raises;
  \<^item> the answers of \<open>NativeTestEngine::InstrumentedRun\<close> and \<open>NativeTestEngine::RegularRun\<close>;
  \<^item> \<open>ApplyAndResoveChangeList\<close> followed by \<open>SelectTestTargets\<close>, for the change list and
    the prioritization policy of the sequence: the map as the resolver leaves it and the
    selected test targets.  (When one of the two raises, the sequence ends before any test
    runs; that path is not modelled.)
\<close>

record External =
  IsRelativeTo :: "string \<Rightarrow> string \<Rightarrow> bool"
  LexicallyRelative :: "string \<Rightarrow> string \<Rightarrow> string"
  ReplaceSourceCoverage :: "SourceCoveringTestsList \<Rightarrow> DynamicDependencyMap \<Rightarrow> DynamicDependencyMap"
  WriteFileContents_failure :: "string option"
  InstrumentedRun_answer :: "TestEngine \<Rightarrow> TestSequenceResult \<times> TestEngineInstrumentedRun list \<times> int"
  RegularRun_answer :: "TestEngine \<Rightarrow> TestSequenceResult \<times> TestEngineJob list \<times> int"
  SelectTestTargets :: "DynamicDependencyMap \<Rightarrow> DynamicDependencyMap \<times> string list"

text \<open>
  Modelled from the spec: the exclude list class is not among the source files.  It maps a
  test target name to its test case filters, and \<open>IsTestTargetFullyExcluded\<close> "returns true
  iff the target's name is listed with an empty or absent case-filter set".
\<close>

type_synonym TestTargetExcludeList = "(string \<times> string list) list"

definition IsTestTargetFullyExcluded :: "TestTargetExcludeList \<Rightarrow> string \<Rightarrow> bool" where
  "IsTestTargetFullyExcluded excludeList testTarget =
     (case map_of excludeList testTarget of Some filters \<Rightarrow> filters = [] | None \<Rightarrow> False)"

text \<open>
  Modelled from the spec: \<open>SelectTestTargetsByExcludeList\<close> is declared in a header that is
  not among the source files; it returns the included and the excluded test targets, "the
  subset of selected test targets that are not on the configuration's exclude list and
  those that are".
\<close>

definition SelectTestTargetsByExcludeList ::
  "TestTargetExcludeList \<Rightarrow> string list \<Rightarrow> string list \<times> string list" where
  "SelectTestTargetsByExcludeList excludeList testTargets =
     (filter (\<lambda>testTarget. \<not> IsTestTargetFullyExcluded excludeList testTarget) testTargets,
      filter (IsTestTargetFullyExcluded excludeList) testTargets)"

section \<open>Coverage consolidation and persistence (TestImpactNativeRuntime.cpp)\<close>

text \<open>
  The local \<open>coverage\<close> of \<open>CreateSourceCoveringTestFromTestCoverages\<close> is an unordered map
  from a source to an unordered set of test target names.  The model keeps its entries in the
  order of first insertion (the iteration order of the source's container is unspecified);
  \<open>coverage_insert\<close> is \<open>coverage[source].insert(name)\<close>.
\<close>

fun coverage_insert ::
  "string \<Rightarrow> string \<Rightarrow> (string \<times> string set) list \<Rightarrow> (string \<times> string set) list" where
  "coverage_insert source name [] = [(source, {name})]"
| "coverage_insert source name ((key, tests) # rest) =
     (if key = source then (key, insert name tests) # rest
      else (key, tests) # coverage_insert source name rest)"

definition quoted :: "string \<Rightarrow> string" where
  "quoted s = CHR 0x27 # s @ [CHR 0x27]"

definition no_coverage_message :: "'a TestEngineInstrumentedRun_scheme \<Rightarrow> string" where
  "no_coverage_message job =
     ''Test target '' @ quoted (c_str (GetTestTarget job))
       @ '' completed its test run successfully but produced no coverage data. Command string: ''
       @ quoted (c_str (GetCommandString job))"

text \<open>
  The body of the loop over the jobs, for one job: the map after the body and either the
  exception raised in it or the local \<open>coverage\<close> after it.  The map is reached through a
  pointer, so what the body did to it stays done when the body raises.
\<close>

definition consolidate_job ::
  "FailedTestCoverage \<Rightarrow> TestEngineInstrumentedRun \<Rightarrow> DynamicDependencyMap
     \<Rightarrow> (string \<times> string set) list
     \<Rightarrow> DynamicDependencyMap \<times> (error + (string \<times> string set) list)" where
  "consolidate_job failedTestCoveragePolicy job dynamicDependencyMap coverage =
     (let ddm = RemoveTestTargetFromSourceCoverage (GetTestTarget job) dynamicDependencyMap;
          testResult = GetTestResult job
      in if failedTestCoveragePolicy = FailedTestCoverage.Discard \<and> testResult = TestFailures
         then (ddm, Inr coverage)
         else if testResult = AllTestsPass \<or> testResult = TestFailures
         then (if testResult = AllTestsPass \<and> GetCoverge job = None
               then (ddm, Inl (RuntimeException (no_coverage_message job)))
               else case GetCoverge job of
                      None \<Rightarrow> (ddm, Inr coverage)
                    | Some sourcesCovered \<Rightarrow>
                        (ddm, Inr (foldl (\<lambda>cov source. coverage_insert source (GetTestTarget job) cov)
                                     coverage sourcesCovered)))
         else (ddm, Inr coverage))"

fun consolidate_jobs ::
  "FailedTestCoverage \<Rightarrow> TestEngineInstrumentedRun list \<Rightarrow> DynamicDependencyMap
     \<Rightarrow> (string \<times> string set) list
     \<Rightarrow> DynamicDependencyMap \<times> (error + (string \<times> string set) list)" where
  "consolidate_jobs failedTestCoveragePolicy [] ddm coverage = (ddm, Inr coverage)"
| "consolidate_jobs failedTestCoveragePolicy (job # jobs) ddm coverage =
     (case consolidate_job failedTestCoveragePolicy job ddm coverage of
        (ddm', Inl e) \<Rightarrow> (ddm', Inl e)
      | (ddm', Inr coverage') \<Rightarrow> consolidate_jobs failedTestCoveragePolicy jobs ddm' coverage')"

text \<open>
  The loop over \<open>coverage\<close>: the entries pushed to \<open>sourceCoveringTests\<close> and the warnings
  emitted, both in iteration order.
\<close>

fun repo_sources ::
  "External \<Rightarrow> string \<Rightarrow> (string \<times> string set) list \<Rightarrow> SourceCoveringTestsList \<times> LogEntry list" where
  "repo_sources ext repoRoot [] = ([], [])"
| "repo_sources ext repoRoot ((source, testTargets) # rest) =
     (case repo_sources ext repoRoot rest of
        (sourceCoveringTests, warnings) \<Rightarrow>
          if IsRelativeTo ext source repoRoot
          then ((LexicallyRelative ext source repoRoot, testTargets) # sourceCoveringTests, warnings)
          else (sourceCoveringTests, AZ_Warning source # warnings))"

text \<open>
  \<open>CreateSourceCoveringTestFromTestCoverages\<close>: the map it has pruned, the log it has written
  and what it returns or raises.
\<close>

definition CreateSourceCoveringTestFromTestCoverages ::
  "External \<Rightarrow> DynamicDependencyMap \<Rightarrow> TestEngineInstrumentedRun list \<Rightarrow> FailedTestCoverage
     \<Rightarrow> string \<Rightarrow> DynamicDependencyMap \<times> LogEntry list \<times> (error + SourceCoveringTestsList)" where
  "CreateSourceCoveringTestFromTestCoverages ext dynamicDependencyMap jobs failedTestCoveragePolicy repoRoot =
     (case consolidate_jobs failedTestCoveragePolicy jobs dynamicDependencyMap [] of
        (ddm, Inl e) \<Rightarrow> (ddm, [], Inl e)
      | (ddm, Inr coverage) \<Rightarrow>
          (case repo_sources ext repoRoot coverage of
             (sourceCoveringTests, warnings) \<Rightarrow> (ddm, warnings, Inr sourceCoveringTests)))"

text \<open>
  The file at the path \<open>sparTiaFile\<close> is \<open>None\<close> when it does not exist and otherwise holds
  the list whose serialization was written to it (\<open>SerializeSourceCoveringTestsList\<close> is not
  among the source files; the specification has it deterministic and invertible).
\<close>

type_synonym SparTiaFile = "SourceCoveringTestsList option"

text \<open>
  Modelled from the spec: \<open>WriteFileContents\<close> and \<open>DeleteFile\<close> are not among the source
  files.  "Persistent file writes are write-whole-file (temp-file + rename)": a write
  replaces the whole file or, when it fails, raises and leaves the prior version.
\<close>

definition WriteFileContents :: "External \<Rightarrow> SourceCoveringTestsList \<Rightarrow> SparTiaFile \<Rightarrow> error + SparTiaFile" where
  "WriteFileContents ext contents file =
     (case WriteFileContents_failure ext of
        Some msg \<Rightarrow> Inl (RuntimeException msg)
      | None \<Rightarrow> Inr (Some contents))"


text \<open>
  \<open>UpdateAndSerializeDynamicDependencyMap\<close>: the map and the file it leaves, the log it has
  written, and the optional flag it returns or the exception that leaves it.
\<close>

record UpdateOutcome =
  updated_map :: DynamicDependencyMap
  updated_file :: SparTiaFile
  update_log :: "LogEntry list"
  update_returned :: "error + bool option"

definition catch_RuntimeException ::
  "IntegrityFailure \<Rightarrow> error \<Rightarrow> DynamicDependencyMap \<Rightarrow> SparTiaFile \<Rightarrow> LogEntry list \<Rightarrow> UpdateOutcome" where
  "catch_RuntimeException integrationFailurePolicy e ddm file log =
     (if integrationFailurePolicy = Abort
      then \<lparr>updated_map = ddm, updated_file = file, update_log = log, update_returned = Inl e\<rparr>
      else \<lparr>updated_map = ddm, updated_file = file, update_log = log @ [AZ_Error (what e)],
             update_returned = Inr None\<rparr>)"

definition UpdateAndSerializeDynamicDependencyMap ::
  "External \<Rightarrow> DynamicDependencyMap \<Rightarrow> TestEngineInstrumentedRun list \<Rightarrow> FailedTestCoverage
     \<Rightarrow> IntegrityFailure \<Rightarrow> string \<Rightarrow> SparTiaFile \<Rightarrow> UpdateOutcome" where
  "UpdateAndSerializeDynamicDependencyMap ext dynamicDependencyMap jobs failedTestCoveragePolicy
       integrationFailurePolicy repoRoot sparTiaFile =
     (case CreateSourceCoveringTestFromTestCoverages ext dynamicDependencyMap jobs
             failedTestCoveragePolicy repoRoot of
        (ddm, log, Inl e) \<Rightarrow> catch_RuntimeException integrationFailurePolicy e ddm sparTiaFile log
      | (ddm, log, Inr sourceCoverageTestsList) \<Rightarrow>
          if GetNumSources sourceCoverageTestsList = 0
          then \<lparr>updated_map = ddm, updated_file = sparTiaFile, update_log = log,
                 update_returned = Inr None\<rparr>
          else
            let ddm' = ReplaceSourceCoverage ext sourceCoverageTestsList ddm;
                sparTia = ExportSourceCoverage ddm'
            in case WriteFileContents ext sparTia sparTiaFile of
                 Inl e \<Rightarrow> catch_RuntimeException integrationFailurePolicy e ddm' sparTiaFile log
               | Inr file \<Rightarrow>
                   \<lparr>updated_map = ddm', updated_file = file, update_log = log,
                     update_returned = Inr (Some True)\<rparr>)"

section \<open>The runtime and its test sequences (TestImpactNativeRuntime.cpp)\<close>

text \<open>
  The members of \<open>NativeRuntime\<close> the sequences read or write.  \<open>m_testTargets\<close> stands
  for \<open>m_dynamicDependencyMap->GetBuildTargets()->GetTestTargetList().GetTargets()\<close>,
  \<open>m_repoRoot\<close> for \<open>m_config.m_commonConfig.m_repo.m_root\<close>, \<open>m_sparTiaFile\<close> for the file
  at the path of that name, and \<open>m_log\<close> collects what the runtime writes to the log.  The
  members that are only copied into reports (concurrency, suite, the remaining policies) are
  left out, and so are the per-job callback and the sequence end callback, which receive a
  job or the report and return nothing.
\<close>

record NativeRuntime =
  m_testTargets :: "string list"
  m_dynamicDependencyMap :: DynamicDependencyMap
  m_regularTestTargetExcludeList :: TestTargetExcludeList
  m_instrumentedTestTargetExcludeList :: TestTargetExcludeList
  m_testEngine :: TestEngine
  m_failedTestCoveragePolicy :: FailedTestCoverage
  m_integrationFailurePolicy :: IntegrityFailure
  m_repoRoot :: string
  m_sparTiaFile :: SparTiaFile
  m_hasImpactAnalysisData :: bool
  m_log :: "LogEntry list"

text \<open>
  \<open>m_testEngine->InstrumentedRun\<close> and \<open>m_testEngine->RegularRun\<close> with the policies of the
  runtime: the invocation is appended to the state of the engine, and the engine answers.
\<close>

definition InstrumentedRun ::
  "External \<Rightarrow> string list \<Rightarrow> int option \<Rightarrow> int option \<Rightarrow> NativeRuntime
     \<Rightarrow> (TestSequenceResult \<times> TestEngineInstrumentedRun list \<times> int) \<times> NativeRuntime" where
  "InstrumentedRun ext testTargets testTargetTimeout globalTimeout runtime =
     (let engine = m_testEngine runtime @ [InstrumentedRunCall testTargets testTargetTimeout globalTimeout]
      in (InstrumentedRun_answer ext engine, runtime\<lparr>m_testEngine := engine\<rparr>))"

definition RegularRun ::
  "External \<Rightarrow> string list \<Rightarrow> int option \<Rightarrow> int option \<Rightarrow> NativeRuntime
     \<Rightarrow> (TestSequenceResult \<times> TestEngineJob list \<times> int) \<times> NativeRuntime" where
  "RegularRun ext testTargets testTargetTimeout globalTimeout runtime =
     (let engine = m_testEngine runtime @ [RegularRunCall testTargets testTargetTimeout globalTimeout]
      in (RegularRun_answer ext engine, runtime\<lparr>m_testEngine := engine\<rparr>))"

record 'j TestRunData =
  m_result :: TestSequenceResult
  m_jobs :: "'j list"
  m_duration :: int

definition TestRunData_default :: "'j TestRunData" where
  "TestRunData_default = \<lparr>m_result = Success, m_jobs = [], m_duration = 0\<rparr>"

text \<open>
  Modelled from the spec: \<open>GenerateTestRunReport\<close> and the report classes are not among the
  source files.  A run report holds "result enum, relative start, duration, job list"; the
  model keeps the arguments the source passes, without the start, each job reduced to what
  every job carries.  A sequence report holds the arguments the source constructs it with,
  without those that are copied from the runtime's configuration.
\<close>

record TestRunReport =
  run_result :: TestSequenceResult
  run_duration :: int
  run_jobs :: "TestEngineJob list"

definition GenerateTestRunReport :: "'a TestEngineJob_scheme TestRunData \<Rightarrow> TestRunReport" where
  "GenerateTestRunReport testRunData =
     \<lparr>run_result = m_result testRunData, run_duration = m_duration testRunData,
       run_jobs = map TestEngineJob.truncate (m_jobs testRunData)\<rparr>"

text \<open>
  The lambda \<open>gatherTestRunData\<close> of both impact analysis sequences: it runs the test targets
  with the given runner and records result, jobs and elapsed time.
\<close>

definition gatherTestRunData ::
  "(string list \<Rightarrow> 's \<Rightarrow> (TestSequenceResult \<times> 'j list \<times> int) \<times> 's) \<Rightarrow> string list \<Rightarrow> 's
     \<Rightarrow> 'j TestRunData \<times> 's" where
  "gatherTestRunData testRunner testsTargets runtime =
     (case testRunner testsTargets runtime of
        ((result, jobs, elapsed), runtime') \<Rightarrow>
          (\<lparr>m_result = result, m_jobs = jobs, m_duration = elapsed\<rparr>, runtime'))"

text \<open>
  The statement
  \<open>m_hasImpactAnalysisData = UpdateAndSerializeDynamicDependencyMap(...).value_or(m_hasImpactAnalysisData)\<close>
  of the three sequences that update the map (the lambda \<open>updateCoverage\<close> of the impact
  analysis sequence): the runtime after it and the exception that leaves it, if any.
\<close>

definition NativeRuntime_updateCoverage ::
  "External \<Rightarrow> TestEngineInstrumentedRun list \<Rightarrow> NativeRuntime \<Rightarrow> NativeRuntime \<times> error option" where
  "NativeRuntime_updateCoverage ext jobs runtime =
     (let outcome = UpdateAndSerializeDynamicDependencyMap ext (m_dynamicDependencyMap runtime) jobs
                      (m_failedTestCoveragePolicy runtime) (m_integrationFailurePolicy runtime)
                      (m_repoRoot runtime) (m_sparTiaFile runtime);
          runtime' = runtime\<lparr>m_dynamicDependencyMap := updated_map outcome,
                             m_sparTiaFile := updated_file outcome,
                             m_log := m_log runtime @ update_log outcome\<rparr>
      in case update_returned outcome of
           Inl e \<Rightarrow> (runtime', Some e)
         | Inr flag \<Rightarrow>
             (runtime'\<lparr>m_hasImpactAnalysisData :=
                         (case flag of Some b \<Rightarrow> b | None \<Rightarrow> m_hasImpactAnalysisData runtime)\<rparr>,
              None))"

subsection \<open>Impact analysis sequence\<close>

record ImpactAnalysisSequenceReport =
  report_testTargetTimeout :: "int option"
  report_globalTimeout :: "int option"
  report_selectedTests :: "string list \<times> string list"
  report_discardedTests :: "string list"
  report_draftedTests :: "string list"
  report_selectedTestRun :: TestRunReport
  report_draftedTestRun :: TestRunReport

text \<open>
  \<open>ImpactAnalysisTestSequenceWrapper\<close>.  The arguments of the start callback are \<open>None\<close>
  when no callback is given.  The result is the runtime after the sequence, the arguments
  the start callback was called with, and the report returned or the exception raised by
  \<open>updateCoverage\<close>.  The local \<open>sequenceTimeout\<close> is assigned as in the source; the lambda
  \<open>gatherTestRunData\<close> of the wrapper captures \<open>globalTimeout\<close> and passes that to the runner.
\<close>

definition ImpactAnalysisTestSequenceWrapper ::
  "(string list \<Rightarrow> int option \<Rightarrow> 's \<Rightarrow> (TestSequenceResult \<times> 'a TestEngineJob_scheme list \<times> int) \<times> 's)
     \<Rightarrow> string list \<Rightarrow> string list \<Rightarrow> string list \<Rightarrow> string list
     \<Rightarrow> int option \<Rightarrow> int option \<Rightarrow> bool
     \<Rightarrow> ('a TestEngineJob_scheme list \<Rightarrow> 's \<Rightarrow> 's \<times> error option) option \<Rightarrow> 's
     \<Rightarrow> 's \<times> ((string list \<times> string list) \<times> string list \<times> string list) option
          \<times> (error + ImpactAnalysisSequenceReport)" where
  "ImpactAnalysisTestSequenceWrapper testRunner includedSelectedTestTargets excludedSelectedTestTargets
       discardedTestTargets draftedTestTargets testTargetTimeout globalTimeout
       testSequenceStartCallback updateCoverage runtime =
     (let sequenceTimeout = globalTimeout;
          selectedTests = (includedSelectedTestTargets, excludedSelectedTestTargets);
          discardedTests = discardedTestTargets;
          draftedTests = draftedTestTargets;
          started = (if testSequenceStartCallback
                     then Some (selectedTests, discardedTests, draftedTests) else None);
          gather = gatherTestRunData (\<lambda>testsTargets. testRunner testsTargets globalTimeout);
          (selectedTestRunData, sequenceTimeout, runtime) =
            (if includedSelectedTestTargets \<noteq> []
             then case gather includedSelectedTestTargets runtime of
                    (testRunData, runtime') \<Rightarrow>
                      (testRunData,
                       (case globalTimeout of
                          Some timeout \<Rightarrow>
                            (let elapsed = m_duration testRunData
                             in Some (if elapsed < timeout then timeout - elapsed else 0))
                        | None \<Rightarrow> sequenceTimeout),
                       runtime')
             else (TestRunData_default, sequenceTimeout, runtime));
          (draftedTestRunData, runtime) =
            (if draftedTestTargets \<noteq> []
             then gather draftedTestTargets runtime
             else (TestRunData_default, runtime));
          sequenceReport =
            \<lparr>report_testTargetTimeout = testTargetTimeout,
              report_globalTimeout = globalTimeout,
              report_selectedTests = selectedTests,
              report_discardedTests = discardedTests,
              report_draftedTests = draftedTests,
              report_selectedTestRun = GenerateTestRunReport selectedTestRunData,
              report_draftedTestRun = GenerateTestRunReport draftedTestRunData\<rparr>
      in case updateCoverage of
           Some update \<Rightarrow>
             (case update (m_jobs selectedTestRunData @ m_jobs draftedTestRunData) runtime of
                (runtime', Some e) \<Rightarrow> (runtime', started, Inl e)
              | (runtime', None) \<Rightarrow> (runtime', started, Inr sequenceReport))
         | None \<Rightarrow> (runtime, started, Inr sequenceReport))"

text \<open>
  \<open>SelectCoveringTestTargets\<close>: the selected test targets and, in the order of the test target
  list, those that were not selected.
\<close>

definition SelectCoveringTestTargets ::
  "External \<Rightarrow> NativeRuntime \<Rightarrow> (string list \<times> string list) \<times> NativeRuntime" where
  "SelectCoveringTestTargets ext runtime =
     (case SelectTestTargets ext (m_dynamicDependencyMap runtime) of
        (ddm, selectedTestTargets) \<Rightarrow>
          ((selectedTestTargets,
            filter (\<lambda>testTarget. testTarget \<notin> set selectedTestTargets) (m_testTargets runtime)),
           runtime\<lparr>m_dynamicDependencyMap := ddm\<rparr>))"

definition ImpactAnalysisTestSequence ::
  "External \<Rightarrow> DynamicDependencyMapPolicy \<Rightarrow> int option \<Rightarrow> int option \<Rightarrow> bool \<Rightarrow> NativeRuntime
     \<Rightarrow> NativeRuntime \<times> ((string list \<times> string list) \<times> string list \<times> string list) option
          \<times> (error + ImpactAnalysisSequenceReport)" where
  "ImpactAnalysisTestSequence ext dynamicDependencyMapPolicy testTargetTimeout globalTimeout
       testSequenceStartCallback runtime =
     (let draftedTestTargets = GetNotCoveringTests (m_testTargets runtime) (m_dynamicDependencyMap runtime)
      in case SelectCoveringTestTargets ext runtime of
           ((selectedTestTargets, discardedTestTargets), runtime) \<Rightarrow>
             (let discardedNotDraftedTestTargets =
                    filter (\<lambda>testTarget. testTarget \<notin> set draftedTestTargets) discardedTestTargets
              in case SelectTestTargetsByExcludeList (m_instrumentedTestTargetExcludeList runtime)
                        selectedTestTargets of
                   (includedSelectedTestTargets, excludedSelectedTestTargets) \<Rightarrow>
                     if dynamicDependencyMapPolicy = Update
                     then ImpactAnalysisTestSequenceWrapper
                            (\<lambda>testsTargets timeout. InstrumentedRun ext testsTargets testTargetTimeout timeout)
                            includedSelectedTestTargets excludedSelectedTestTargets
                            discardedNotDraftedTestTargets draftedTestTargets
                            testTargetTimeout globalTimeout testSequenceStartCallback
                            (Some (NativeRuntime_updateCoverage ext)) runtime
                     else ImpactAnalysisTestSequenceWrapper
                            (\<lambda>testsTargets timeout. RegularRun ext testsTargets testTargetTimeout timeout)
                            includedSelectedTestTargets excludedSelectedTestTargets
                            discardedNotDraftedTestTargets draftedTestTargets
                            testTargetTimeout globalTimeout testSequenceStartCallback
                            None runtime))"

subsection \<open>Safe impact analysis sequence\<close>

record SafeImpactAnalysisSequenceReport =
  safe_testTargetTimeout :: "int option"
  safe_globalTimeout :: "int option"
  safe_selectedTests :: "string list \<times> string list"
  safe_discardedTests :: "string list \<times> string list"
  safe_draftedTests :: "string list"
  safe_selectedTestRun :: TestRunReport
  safe_discardedTestRun :: TestRunReport
  safe_draftedTestRun :: TestRunReport

text \<open>
  \<open>SafeImpactAnalysisTestSequence\<close>.  Its runner lambdas capture \<open>sequenceTimeout\<close> by
  reference, so each run is given the value the local has when the run starts.
\<close>

definition SafeImpactAnalysisTestSequence ::
  "External \<Rightarrow> int option \<Rightarrow> int option \<Rightarrow> bool \<Rightarrow> NativeRuntime
     \<Rightarrow> NativeRuntime
          \<times> ((string list \<times> string list) \<times> (string list \<times> string list) \<times> string list) option
          \<times> (error + SafeImpactAnalysisSequenceReport)" where
  "SafeImpactAnalysisTestSequence ext testTargetTimeout globalTimeout testSequenceStartCallback runtime =
     (let sequenceTimeout = globalTimeout;
          draftedTestTargets = GetNotCoveringTests (m_testTargets runtime) (m_dynamicDependencyMap runtime)
      in case SelectCoveringTestTargets ext runtime of
           ((selectedTestTargets, discardedTestTargets), runtime) \<Rightarrow>
      (case SelectTestTargetsByExcludeList (m_instrumentedTestTargetExcludeList runtime)
              selectedTestTargets of
         (includedSelectedTestTargets, excludedSelectedTestTargets) \<Rightarrow>
      (case SelectTestTargetsByExcludeList (m_regularTestTargetExcludeList runtime)
              discardedTestTargets of
         (includedDiscardedTestTargets, excludedDiscardedTestTargets) \<Rightarrow>
      (let selectedTests = (includedSelectedTestTargets, excludedSelectedTestTargets);
           discardedTests = (includedDiscardedTestTargets, excludedDiscardedTestTargets);
           draftedTests = draftedTestTargets;
           started = (if testSequenceStartCallback
                      then Some (selectedTests, discardedTests, draftedTests) else None);
           (selectedTestRunData, sequenceTimeout, runtime) =
             (if includedSelectedTestTargets \<noteq> []
              then case gatherTestRunData
                          (\<lambda>testsTargets. InstrumentedRun ext testsTargets testTargetTimeout sequenceTimeout)
                          includedSelectedTestTargets runtime of
                     (testRunData, runtime') \<Rightarrow>
                       (testRunData,
                        (case globalTimeout of
                           Some timeout \<Rightarrow>
                             (let elapsed = m_duration testRunData
                              in Some (if elapsed < timeout then timeout - elapsed else 0))
                         | None \<Rightarrow> sequenceTimeout),
                        runtime')
              else (TestRunData_default, sequenceTimeout, runtime));
           (discardedTestRunData, sequenceTimeout, runtime) =
             (if includedDiscardedTestTargets \<noteq> []
              then case gatherTestRunData
                          (\<lambda>testsTargets. RegularRun ext testsTargets testTargetTimeout sequenceTimeout)
                          includedDiscardedTestTargets runtime of
                     (testRunData, runtime') \<Rightarrow>
                       (testRunData,
                        (case globalTimeout of
                           Some timeout \<Rightarrow>
                             (let elapsed = m_duration selectedTestRunData + m_duration testRunData
                              in Some (if elapsed < timeout then timeout - elapsed else 0))
                         | None \<Rightarrow> sequenceTimeout),
                        runtime')
              else (TestRunData_default, sequenceTimeout, runtime));
           (draftedTestRunData, runtime) =
             (if draftedTestTargets \<noteq> []
              then gatherTestRunData
                     (\<lambda>testsTargets. InstrumentedRun ext testsTargets testTargetTimeout sequenceTimeout)
                     draftedTestTargets runtime
              else (TestRunData_default, runtime));
           sequenceReport =
             \<lparr>safe_testTargetTimeout = testTargetTimeout,
               safe_globalTimeout = globalTimeout,
               safe_selectedTests = selectedTests,
               safe_discardedTests = discardedTests,
               safe_draftedTests = draftedTests,
               safe_selectedTestRun = GenerateTestRunReport selectedTestRunData,
               safe_discardedTestRun = GenerateTestRunReport discardedTestRunData,
               safe_draftedTestRun = GenerateTestRunReport draftedTestRunData\<rparr>
       in case NativeRuntime_updateCoverage ext
                 (m_jobs selectedTestRunData @ m_jobs draftedTestRunData) runtime of
            (runtime', Some e) \<Rightarrow> (runtime', started, Inl e)
          | (runtime', None) \<Rightarrow> (runtime', started, Inr sequenceReport)))))"

subsection \<open>Seeded sequence\<close>




section \<open>Example collaborators\<close>

text \<open>
  One choice of the collaborators, for the concrete runs below: a path is under the root
  when the root is a prefix of it, the relative path drops the root and the separator after
  it, replacing coverage replaces the entries of the sources in the list and keeps the
  others, writing succeeds, the engine answers with no job, and no test target is selected.
\<close>

definition example_External :: External where
  "example_External =
     \<lparr>IsRelativeTo = (\<lambda>path root. take (length root) path = root),
       LexicallyRelative = (\<lambda>path root. drop (length root + 1) path),
       ReplaceSourceCoverage = (\<lambda>sourceCoverageDelta ddm.
          sourceCoverageDelta @ filter (\<lambda>(source, tests). source \<notin> fst ` set sourceCoverageDelta) ddm),
       WriteFileContents_failure = None,
       InstrumentedRun_answer = (\<lambda>engine. (Success, [], 0)),
       RegularRun_answer = (\<lambda>engine. (Success, [], 0)),
       SelectTestTargets = (\<lambda>ddm. (ddm, []))\<rparr>"

definition example_job :: "string \<Rightarrow> TestRunResult \<Rightarrow> string list option \<Rightarrow> TestEngineInstrumentedRun" where
  "example_job testTarget testResult coverage =
     \<lparr>GetTestTarget = testTarget, GetCommandString = testTarget @ ''.exe'',
       GetTestResult = testResult, GetCoverge = coverage\<rparr>"

text \<open>The map of the first end-to-end scenario of the specification.\<close>

definition scenario_map :: DynamicDependencyMap where
  "scenario_map = [(''a.cpp'', {''T1''}), (''b.cpp'', {''T2''}), (''c.cpp'', {''T2''})]"

text \<open>
  A runtime over the three test targets of the end-to-end scenarios, holding the map of the
  first scenario in memory and on disk, with empty exclude lists.
\<close>

definition scenario_runtime :: NativeRuntime where
  "scenario_runtime =
     \<lparr>m_testTargets = [''T1'', ''T2'', ''T3''],
       m_dynamicDependencyMap = scenario_map,
       m_regularTestTargetExcludeList = [],
       m_instrumentedTestTargetExcludeList = [],
       m_testEngine = [],
       m_failedTestCoveragePolicy = FailedTestCoverage.Keep,
       m_integrationFailurePolicy = Continue,
       m_repoRoot = ''/repo'',
       m_sparTiaFile = Some scenario_map,
       m_hasImpactAnalysisData = True,
       m_log = []\<rparr>"

text \<open>
  The collaborators of the global timeout scenario: \<open>T1\<close> is selected; the first run of the
  engine takes 900 ms and the later ones 100 ms.
\<close>

definition timeout_External :: External where
  "timeout_External =
     example_External
       \<lparr>InstrumentedRun_answer :=
          (\<lambda>engine. if length engine = 1
                     then (Success, [example_job ''T1'' AllTestsPass (Some [''/repo/a.cpp''])], 900)
                     else (TestSequenceResult.Timeout, [], 100)),
        RegularRun_answer :=
          (\<lambda>engine. if length engine = 1
                     then (Success, [TestEngineJob.truncate
                                        (example_job ''T1'' AllTestsPass (Some [''/repo/a.cpp'']))], 900)
                     else (TestSequenceResult.Timeout, [], 100)),
        SelectTestTargets := (\<lambda>ddm. (ddm, [''T1'']))\<rparr>"

text \<open>
  The same runtime with \<open>T1\<close> and \<open>T3\<close> fully excluded from regular and instrumented runs.
\<close>

definition excluding_runtime :: NativeRuntime where
  "excluding_runtime =
     scenario_runtime
       \<lparr>m_regularTestTargetExcludeList := [(''T1'', []), (''T3'', [])],
        m_instrumentedTestTargetExcludeList := [(''T1'', []), (''T3'', [])]\<rparr>"


section \<open>Properties of the target list\<close>

subsection \<open>Sorting and the duplicate check\<close>

lemma adjacent_find_None_distinct:
  "sorted (map f xs) \<Longrightarrow> adjacent_find (\<lambda>a b. f a = f b) xs = None \<Longrightarrow> distinct (map f xs)"
proof (induction "(\<lambda>a b. f a = f b)" xs rule: adjacent_find.induct)
  case (3 x y ys)
  then show ?case by (auto split: if_splits)
qed auto

lemma distinct_adjacent_find_None:
  "distinct (map f xs) \<Longrightarrow> adjacent_find (\<lambda>a b. f a = f b) xs = None"
  by (induction "(\<lambda>a b. f a = f b)" xs rule: adjacent_find.induct) auto

lemma distinct_map_insort_key:
  "distinct (map f (insort_key f x xs)) = (f x \<notin> f ` set xs \<and> distinct (map f xs))"
  by (induction xs) (auto simp: set_insort_key)

lemma distinct_map_sort_key:
  "distinct (map f (sort_key f xs)) = distinct (map f xs)"
  by (induction xs) (auto simp: distinct_map_insort_key)

lemma partition_point_bounds:
  "first \<le> partition_point p xs first len \<and> partition_point p xs first len \<le> first + len"
proof (induction p xs first len rule: partition_point.induct)
  case (1 p xs first len)
  show ?case
    using 1 by (subst (1 2) partition_point.simps) (auto)
qed

lemma partition_point_correct:
  assumes "\<And>i j. first \<le> i \<Longrightarrow> i \<le> j \<Longrightarrow> j < first + len \<Longrightarrow> p (xs ! j) \<Longrightarrow> p (xs ! i)"
  shows "(\<forall>i. first \<le> i \<and> i < partition_point p xs first len \<longrightarrow> p (xs ! i)) \<and>
     (\<forall>i. partition_point p xs first len \<le> i \<and> i < first + len \<longrightarrow> \<not> p (xs ! i))"
  using assms
proof (induction p xs first len rule: partition_point.induct)
  case (1 p xs first len)
  show ?case
  proof (cases "len = 0")
    case True
    then show ?thesis by (subst (1 2) partition_point.simps) auto
  next
    case False
    let ?mid = "first + len div 2"
    have midlt: "?mid < first + len" using False by simp
    show ?thesis
    proof (cases "p (xs ! ?mid)")
      case True
      have pre: "\<And>i. first \<le> i \<Longrightarrow> i \<le> ?mid \<Longrightarrow> p (xs ! i)"
        using 1(3)[OF _ _ midlt True] by simp
      have eq: "partition_point p xs first len = partition_point p xs (?mid + 1) (len - len div 2 - 1)"
        using False True by (subst partition_point.simps) simp
      have le: "?mid + 1 + (len - len div 2 - 1) = first + len" using False by simp
      have IH: "(\<forall>i. ?mid + 1 \<le> i \<and> i < partition_point p xs (?mid + 1) (len - len div 2 - 1) \<longrightarrow> p (xs ! i)) \<and>
     (\<forall>i. partition_point p xs (?mid + 1) (len - len div 2 - 1) \<le> i \<and> i < ?mid + 1 + (len - len div 2 - 1) \<longrightarrow> \<not> p (xs ! i))"
        apply (rule 1(1)[OF False True])
        using 1(3) le by auto
      show ?thesis unfolding eq using IH pre le
        by (metis not_less_eq_eq Suc_eq_plus1)
    next
      case F2: False
      have post: "\<And>i. ?mid \<le> i \<Longrightarrow> i < first + len \<Longrightarrow> \<not> p (xs ! i)"
        using 1(3)[of ?mid] F2 by auto
      have eq: "partition_point p xs first len = partition_point p xs first (len div 2)"
        using False F2 by (subst partition_point.simps) simp
      have IH: "(\<forall>i. first \<le> i \<and> i < partition_point p xs first (len div 2) \<longrightarrow> p (xs ! i)) \<and>
     (\<forall>i. partition_point p xs first (len div 2) \<le> i \<and> i < first + len div 2 \<longrightarrow> \<not> p (xs ! i))"
        apply (rule 1(2)[OF False F2])
        using 1(3) midlt by (meson less_trans)
      show ?thesis unfolding eq using IH post
        by (meson not_le_imp_less)
    qed
  qed
qed

lemma partition_point_unique:
  assumes "first \<le> r" and "r \<le> first + len"
    and pre: "\<And>i. first \<le> i \<Longrightarrow> i < r \<Longrightarrow> p (xs ! i)"
    and post: "\<And>i. r \<le> i \<Longrightarrow> i < first + len \<Longrightarrow> \<not> p (xs ! i)"
  shows "partition_point p xs first len = r"
proof -
  let ?r = "partition_point p xs first len"
  have mono: "\<And>i j. first \<le> i \<Longrightarrow> i \<le> j \<Longrightarrow> j < first + len \<Longrightarrow> p (xs ! j) \<Longrightarrow> p (xs ! i)"
    using pre post by (meson le_less_trans not_le_imp_less)
  have c: "(\<forall>i. first \<le> i \<and> i < ?r \<longrightarrow> p (xs ! i)) \<and>
     (\<forall>i. ?r \<le> i \<and> i < first + len \<longrightarrow> \<not> p (xs ! i))"
    by (rule partition_point_correct) (rule mono)
  have c1: "\<And>i. first \<le> i \<Longrightarrow> i < ?r \<Longrightarrow> p (xs ! i)"
    and c2: "\<And>i. ?r \<le> i \<Longrightarrow> i < first + len \<Longrightarrow> \<not> p (xs ! i)"
    using c by blast+
  have b: "first \<le> ?r" "?r \<le> first + len"
    using partition_point_bounds[of first p xs len] by auto
  have "\<not> ?r < r"
  proof
    assume "?r < r"
    then have "p (xs ! ?r)" using pre b by simp
    moreover have "\<not> p (xs ! ?r)" using c2[of ?r] \<open>?r < r\<close> assms(2) by simp
    ultimately show False by simp
  qed
  moreover have "\<not> r < ?r"
  proof
    assume "r < ?r"
    then have "p (xs ! r)" using c1 assms(1) by simp
    moreover have "\<not> p (xs ! r)" using post[of r] \<open>r < ?r\<close> b by simp
    ultimately show False by simp
  qed
  ultimately show ?thesis by simp
qed

lemma partition_point_cong:
  assumes "\<And>i. first \<le> i \<Longrightarrow> i < first + len \<Longrightarrow> p (xs ! i) = q (xs ! i)"
  shows "partition_point p xs first len = partition_point q xs first len"
  using assms
proof (induction p xs first len rule: partition_point.induct)
  case (1 p xs first len)
  show ?case
  proof (cases "len = 0")
    case True
    then show ?thesis by (simp add: partition_point.simps)
  next
    case False
    have pq: "p (xs ! (first + len div 2)) = q (xs ! (first + len div 2))"
      using 1(3) False by simp
    show ?thesis
    proof (cases "p (xs ! (first + len div 2))")
      case True
      have "partition_point p xs (first + len div 2 + 1) (len - len div 2 - 1)
          = partition_point q xs (first + len div 2 + 1) (len - len div 2 - 1)"
        using 1(3) False by (intro 1(1)[OF False True]) simp_all
      then show ?thesis
        using False True pq by (subst (1 2) partition_point.simps) simp
    next
      case F2: False
      have "partition_point p xs first (len div 2) = partition_point q xs first (len div 2)"
        using 1(3) False by (intro 1(2)[OF False F2]) simp_all
      then show ?thesis
        using False F2 pq by (subst (1 2) partition_point.simps) simp
    qed
  qed
qed

subsection \<open>Construction and lookup\<close>

lemma sorted_descriptors_strict:
  assumes "TargetList descriptors = Inr m_targets"
  shows "m_targets = map Target (sort_key m_name descriptors)"
    and "sorted (map GetName m_targets)"
    and "distinct (map GetName m_targets)"
    and "GetName ` set m_targets = m_name ` set descriptors"
    and "distinct (map m_name descriptors)"
proof -
  let ?s = "sort_key m_name descriptors"
  have ne: "descriptors \<noteq> []" and af: "adjacent_find (\<lambda>lhs rhs. m_name lhs = m_name rhs) ?s = None"
    and mt: "m_targets = map Target ?s"
    using assms by (auto simp: TargetList_def Let_def split: if_splits)
  show "m_targets = map Target ?s" by (rule mt)
  have names: "map GetName m_targets = map m_name ?s"
    by (simp add: mt comp_def)
  show "sorted (map GetName m_targets)" by (simp add: names)
  have d: "distinct (map m_name ?s)"
    by (rule adjacent_find_None_distinct[OF _ af]) simp
  show "distinct (map GetName m_targets)" by (simp add: names d)
  show "distinct (map m_name descriptors)" using d by (simp add: distinct_map_sort_key)
  show "GetName ` set m_targets = m_name ` set descriptors"
    by (simp add: mt image_image)
qed

lemma GetTarget_at_index:
  assumes s: "sorted (map GetName ts)" and d: "distinct (map GetName ts)" and k: "k < length ts"
  shows "GetTarget ts (GetName (ts ! k)) = Some (ts ! k)"
proof -
  let ?n = "GetName (ts ! k)"
  have lt: "\<And>i j. i < j \<Longrightarrow> j < length ts \<Longrightarrow> GetName (ts ! i) < GetName (ts ! j)"
  proof -
    fix i j assume ij: "i < j" "j < length ts"
    have "GetName (ts ! i) \<le> GetName (ts ! j)"
      using sorted_nth_mono[OF s, of i j] ij by simp
    moreover have "GetName (ts ! i) \<noteq> GetName (ts ! j)"
      using d ij by (simp add: distinct_conv_nth)
    ultimately show "GetName (ts ! i) < GetName (ts ! j)" by simp
  qed
  have lb: "lower_bound ts ?n = k"
    unfolding lower_bound_def
  proof (rule partition_point_unique)
    fix i assume "0 \<le> i" "i < k"
    then show "GetName (ts ! i) < ?n" using lt k by simp
  next
    fix i assume "k \<le> i" "i < 0 + length ts"
    then have "?n \<le> GetName (ts ! i)" using lt[of k i] by (cases "i = k") auto
    then show "\<not> GetName (ts ! i) < ?n" by simp
  qed (use k in auto)
  have ub: "upper_bound ts ?n = Suc k"
    unfolding upper_bound_def
  proof (rule partition_point_unique)
    fix i assume "0 \<le> i" "i < Suc k"
    then have "GetName (ts ! i) \<le> ?n" using lt[of i k] k by (cases "i = k") auto
    then show "\<not> ?n < GetName (ts ! i)" by simp
  next
    fix i assume "Suc k \<le> i" "i < 0 + length ts"
    then show "\<not> \<not> ?n < GetName (ts ! i)" using lt[of k i] by simp
  qed (use k in auto)
  show ?thesis by (simp add: GetTarget_def lb ub)
qed

lemma GetTarget_absent:
  assumes "name \<notin> GetName ` set ts"
  shows "GetTarget ts name = None"
proof -
  have "lower_bound ts name = upper_bound ts name"
    unfolding lower_bound_def upper_bound_def
  proof (rule partition_point_cong)
    fix i assume "0 \<le> i" "i < 0 + length ts"
    then have "GetName (ts ! i) \<noteq> name" using assms by auto
    then show "(GetName (ts ! i) < name) = (\<not> name < GetName (ts ! i))" by auto
  qed
  then show ?thesis by (simp add: GetTarget_def)
qed

text \<open>
  C7.  Constructing a target list from no descriptors raises a \<open>TargetException\<close>, and so
  does constructing it from descriptors two of which have the same name.  In both cases the
  constructor yields the exception and no list.
\<close>

theorem TargetList_rejects_empty_and_duplicates:
  "TargetList ([] :: 'a Descriptor_scheme list) = Inl (TargetException ''Target list is empty'') \<and>
   (\<not> distinct (map m_name (descriptors :: 'a Descriptor_scheme list)) \<longrightarrow>
      TargetList descriptors = Inl (TargetException ''Target list contains duplicate targets''))"
proof (intro conjI impI)
  show "TargetList ([] :: 'a Descriptor_scheme list) = Inl (TargetException ''Target list is empty'')"
    by (simp add: TargetList_def)
next
  assume nd: "\<not> distinct (map m_name descriptors)"
  then have ne: "descriptors \<noteq> []" by auto
  have "\<not> distinct (map m_name (sort_key m_name descriptors))"
    using nd by (simp add: distinct_map_sort_key)
  then have "adjacent_find (\<lambda>lhs rhs. m_name lhs = m_name rhs) (sort_key m_name descriptors) \<noteq> None"
    using distinct_adjacent_find_None adjacent_find_None_distinct[of m_name "sort_key m_name descriptors"]
    by auto
  then show "TargetList descriptors = Inl (TargetException ''Target list contains duplicate targets'')"
    using ne by (simp add: TargetList_def Let_def)
qed

theorem TargetList_rejects_witness:
  "TargetList ([] :: Descriptor list) = Inl (TargetException ''Target list is empty'') \<and>
   \<not> distinct (map m_name [\<lparr>m_name = ''T1''\<rparr>, \<lparr>m_name = ''T2''\<rparr>, \<lparr>m_name = ''T1''\<rparr>]) \<and>
   TargetList [\<lparr>m_name = ''T1''\<rparr>, \<lparr>m_name = ''T2''\<rparr>, \<lparr>m_name = ''T1''\<rparr>]
     = Inl (TargetException ''Target list contains duplicate targets'')"
  using TargetList_rejects_empty_and_duplicates
          [of "[\<lparr>m_name = ''T1''\<rparr>, \<lparr>m_name = ''T2''\<rparr>, \<lparr>m_name = ''T1''\<rparr>]"]
  by simp

text \<open>
  C8.  In a target list constructed without an exception, \<open>GetTarget\<close> with the name of
  any of the descriptors returns the target made from that descriptor, whose name is the
  name asked for, and \<open>GetTargetOrThrow\<close> returns it too; with any other name \<open>GetTarget\<close>
  returns null and \<open>GetTargetOrThrow\<close> raises a \<open>TargetException\<close>.
\<close>

theorem GetTarget_round_trip:
  assumes "TargetList descriptors = Inr m_targets"
  shows "(\<forall>d \<in> set descriptors.
            GetTarget m_targets (m_name d) = Some (Target d) \<and>
            GetName (Target d) = m_name d \<and>
            GetTargetOrThrow m_targets (m_name d) = Inr (Target d)) \<and>
         (\<forall>name. name \<notin> m_name ` set descriptors \<longrightarrow>
            GetTarget m_targets name = None \<and>
            GetTargetOrThrow m_targets name
              = Inl (TargetException (''Couldn't find target '' @ c_str name)))"
proof (intro conjI ballI allI impI)
  note facts = sorted_descriptors_strict[OF assms]
  fix d assume d: "d \<in> set descriptors"
  have "Target d \<in> set m_targets" using d facts(1) by simp
  then obtain k where k: "k < length m_targets" "m_targets ! k = Target d"
    by (auto simp: in_set_conv_nth)
  show g: "GetTarget m_targets (m_name d) = Some (Target d)"
    using GetTarget_at_index[OF facts(2) facts(3) k(1)] k(2) by simp
  show "GetName (Target d) = m_name d" by simp
  show "GetTargetOrThrow m_targets (m_name d) = Inr (Target d)"
    by (simp add: GetTargetOrThrow_def g)
next
  note facts = sorted_descriptors_strict[OF assms]
  fix name assume "name \<notin> m_name ` set descriptors"
  then have "name \<notin> GetName ` set m_targets" using facts(4) by simp
  then show g: "GetTarget m_targets name = None" by (rule GetTarget_absent)
  show "GetTargetOrThrow m_targets name = Inl (TargetException (''Couldn't find target '' @ c_str name))"
    by (simp add: GetTargetOrThrow_def g)
qed

theorem GetTarget_round_trip_witness:
  "TargetList [\<lparr>m_name = ''T2''\<rparr>, \<lparr>m_name = ''T1''\<rparr>, \<lparr>m_name = ''T3''\<rparr>]
     = Inr [Target \<lparr>m_name = ''T1''\<rparr>, Target \<lparr>m_name = ''T2''\<rparr>, Target \<lparr>m_name = ''T3''\<rparr>] \<and>
   GetTarget [Target \<lparr>m_name = ''T1''\<rparr>, Target \<lparr>m_name = ''T2''\<rparr>, Target \<lparr>m_name = ''T3''\<rparr>] ''T2''
     = Some (Target \<lparr>m_name = ''T2''\<rparr>) \<and>
   GetTarget [Target \<lparr>m_name = ''T1''\<rparr>, Target \<lparr>m_name = ''T2''\<rparr>, Target \<lparr>m_name = ''T3''\<rparr>] ''T4''
     = None \<and>
   GetTargetOrThrow [Target \<lparr>m_name = ''T1''\<rparr>, Target \<lparr>m_name = ''T2''\<rparr>, Target \<lparr>m_name = ''T3''\<rparr>] ''T4''
     = Inl (TargetException ''Couldn't find target T4'') \<and>
   GetTargetOrThrow [Target \<lparr>m_name = ''T1''\<rparr>, Target \<lparr>m_name = ''T2''\<rparr>, Target \<lparr>m_name = ''T3''\<rparr>]
       [CHR ''T'', CHR 0x00, CHR ''4'']
     = Inl (TargetException ''Couldn't find target T'')"
proof -
  have c: "TargetList [\<lparr>m_name = ''T2''\<rparr>, \<lparr>m_name = ''T1''\<rparr>, \<lparr>m_name = ''T3''\<rparr>]
     = Inr [Target \<lparr>m_name = ''T1''\<rparr>, Target \<lparr>m_name = ''T2''\<rparr>, Target \<lparr>m_name = ''T3''\<rparr>]"
    by (simp add: TargetList_def)
  show ?thesis
    using c GetTarget_round_trip[OF c] by (simp add: c_str_def)
qed

section \<open>Properties of coverage consolidation\<close>

subsection \<open>One job and the loop over the jobs\<close>

lemma consolidate_job_map:
  "fst (consolidate_job pol job ddm cov) = RemoveTestTargetFromSourceCoverage (GetTestTarget job) ddm"
  by (simp add: consolidate_job_def Let_def split: option.splits)

lemma consolidate_job_coverage_independent:
  "snd (consolidate_job pol job ddm cov) = snd (consolidate_job pol job ddm' cov)"
  by (simp add: consolidate_job_def Let_def split: option.splits)

lemma consolidate_job_cases:
  obtains (raise) "GetTestResult job = AllTestsPass" "GetCoverge job = None"
      "consolidate_job pol job ddm cov
         = (RemoveTestTargetFromSourceCoverage (GetTestTarget job) ddm,
            Inl (RuntimeException (no_coverage_message job)))"
  | (ingest) sourcesCovered where "GetCoverge job = Some sourcesCovered"
      "GetTestResult job = AllTestsPass \<or>
         GetTestResult job = TestFailures \<and> pol \<noteq> FailedTestCoverage.Discard"
      "consolidate_job pol job ddm cov
         = (RemoveTestTargetFromSourceCoverage (GetTestTarget job) ddm,
            Inr (foldl (\<lambda>cov source. coverage_insert source (GetTestTarget job) cov) cov sourcesCovered))"
  | (skip) "\<not> (GetTestResult job = AllTestsPass \<and> GetCoverge job = None)"
      "\<not> (GetCoverge job \<noteq> None \<and> (GetTestResult job = AllTestsPass \<or>
         GetTestResult job = TestFailures \<and> pol \<noteq> FailedTestCoverage.Discard))"
      "consolidate_job pol job ddm cov
         = (RemoveTestTargetFromSourceCoverage (GetTestTarget job) ddm, Inr cov)"
proof (cases "GetTestResult job = AllTestsPass \<and> GetCoverge job = None")
  case True
  then show ?thesis using raise by (simp add: consolidate_job_def Let_def)
next
  case False
  show ?thesis
  proof (cases "GetCoverge job \<noteq> None \<and> (GetTestResult job = AllTestsPass \<or>
         GetTestResult job = TestFailures \<and> pol \<noteq> FailedTestCoverage.Discard)")
    case True
    then obtain sc where sc: "GetCoverge job = Some sc" by auto
    show ?thesis
      using True sc by (intro ingest[of sc]) (auto simp: consolidate_job_def Let_def)
  next
    case F2: False
    show ?thesis
      using False F2
      by (intro skip) (auto simp: consolidate_job_def Let_def split: option.splits)
  qed
qed

lemma consolidate_jobs_coverage_independent:
  "snd (consolidate_jobs pol jobs ddm cov) = snd (consolidate_jobs pol jobs ddm' cov)"
proof (induction jobs arbitrary: ddm ddm' cov)
  case Nil
  show ?case by simp
next
  case (Cons job jobs)
  show ?case
    by (cases rule: consolidate_job_cases[of job pol ddm cov];
        cases rule: consolidate_job_cases[of job pol ddm' cov])
       (auto simp: Cons.IH)
qed

lemma consolidate_jobs_append:
  "consolidate_jobs pol (pre @ post) ddm cov =
     (case consolidate_jobs pol pre ddm cov of
        (ddm', Inl e) \<Rightarrow> (ddm', Inl e)
      | (ddm', Inr cov') \<Rightarrow> consolidate_jobs pol post ddm' cov')"
proof (induction pre arbitrary: ddm cov)
  case Nil
  show ?case by simp
next
  case (Cons job pre)
  show ?case
    by (cases rule: consolidate_job_cases[of job pol ddm cov]) (auto simp: Cons.IH)
qed

lemma pass_without_coverage_raises:
  assumes "job \<in> set jobs" "GetTestResult job = AllTestsPass" "GetCoverge job = None"
  shows "\<exists>msg. snd (consolidate_jobs pol jobs ddm cov) = Inl (RuntimeException msg)"
  using assms(1)
proof (induction jobs arbitrary: ddm cov)
  case Nil
  then show ?case by simp
next
  case (Cons j jobs)
  show ?case
  proof (cases rule: consolidate_job_cases[of j pol ddm cov])
    case raise
    then show ?thesis by simp
  next
    case (ingest sc)
    then have "j \<noteq> job" using assms(3) by auto
    then show ?thesis using ingest Cons by auto
  next
    case skip
    then have "j \<noteq> job" using assms(2,3) by auto
    then show ?thesis using skip Cons by auto
  qed
qed




lemma consolidate_jobs_map:
  "\<exists>k \<le> length jobs.
     fst (consolidate_jobs pol jobs ddm cov)
       = foldl (\<lambda>d job. RemoveTestTargetFromSourceCoverage (GetTestTarget job) d) ddm (take k jobs) \<and>
     (isl (snd (consolidate_jobs pol jobs ddm cov)) \<longrightarrow> 0 < k) \<and>
     (\<not> isl (snd (consolidate_jobs pol jobs ddm cov)) \<longrightarrow> k = length jobs)"
proof (induction jobs arbitrary: ddm cov)
  case Nil
  show ?case by simp
next
  case (Cons job jobs)
  let ?d = "RemoveTestTargetFromSourceCoverage (GetTestTarget job) ddm"
  show ?case
  proof (cases rule: consolidate_job_cases[of job pol ddm cov])
    case raise
    then show ?thesis by (intro exI[of _ 1]) simp
  next
    case (ingest sc)
    obtain k where "k \<le> length jobs" and
      "fst (consolidate_jobs pol jobs ?d (foldl (\<lambda>cov source. coverage_insert source (GetTestTarget job) cov) cov sc))
       = foldl (\<lambda>d job. RemoveTestTargetFromSourceCoverage (GetTestTarget job) d) ?d (take k jobs)"
      "\<not> isl (snd (consolidate_jobs pol jobs ?d (foldl (\<lambda>cov source. coverage_insert source (GetTestTarget job) cov) cov sc))) \<longrightarrow> k = length jobs"
      using Cons.IH by blast
    then show ?thesis using ingest by (intro exI[of _ "Suc k"]) simp
  next
    case skip
    obtain k where "k \<le> length jobs" and
      "fst (consolidate_jobs pol jobs ?d cov)
       = foldl (\<lambda>d job. RemoveTestTargetFromSourceCoverage (GetTestTarget job) d) ?d (take k jobs)"
      "\<not> isl (snd (consolidate_jobs pol jobs ?d cov)) \<longrightarrow> k = length jobs"
      using Cons.IH by blast
    then show ?thesis using skip by (intro exI[of _ "Suc k"]) simp
  qed
qed


lemma skipped_job_dropped:
  assumes "GetTestResult job = TestFailures"
    and "pol = FailedTestCoverage.Discard \<or> GetCoverge job = None"
  shows "snd (consolidate_jobs pol (pre @ job # post) ddm cov)
       = snd (consolidate_jobs pol (pre @ post) ddm cov)"
proof -
  have step: "\<And>d' c'. snd (consolidate_job pol job d' c') = Inr c'"
    using assms by (auto simp: consolidate_job_def Let_def split: option.splits)
  have "\<And>d' c'. snd (consolidate_jobs pol (job # post) d' c') = snd (consolidate_jobs pol post d' c')"
  proof -
    fix d' c'
    have "consolidate_job pol job d' c' = (RemoveTestTargetFromSourceCoverage (GetTestTarget job) d', Inr c')"
      using step[of d' c'] consolidate_job_map[of pol job d' c'] by (simp add: prod_eq_iff)
    then show "snd (consolidate_jobs pol (job # post) d' c') = snd (consolidate_jobs pol post d' c')"
      using consolidate_jobs_coverage_independent by simp
  qed
  then show ?thesis
    by (simp add: consolidate_jobs_append split: prod.splits sum.splits)
qed

lemma Create_fst:
  "fst (CreateSourceCoveringTestFromTestCoverages ext ddm jobs pol root)
     = fst (consolidate_jobs pol jobs ddm [])"
  by (simp add: CreateSourceCoveringTestFromTestCoverages_def split: prod.splits sum.splits)

lemma Create_snd:
  "snd (CreateSourceCoveringTestFromTestCoverages ext ddm jobs pol root)
     = (case snd (consolidate_jobs pol jobs ddm []) of
          Inl e \<Rightarrow> ([], Inl e)
        | Inr coverage \<Rightarrow> (snd (repo_sources ext root coverage), Inr (fst (repo_sources ext root coverage))))"
  by (simp add: CreateSourceCoveringTestFromTestCoverages_def split: prod.splits sum.splits)

lemma Create_isl:
  "isl (snd (snd (CreateSourceCoveringTestFromTestCoverages ext ddm jobs pol root)))
     = isl (snd (consolidate_jobs pol jobs ddm []))"
  by (simp add: Create_snd split: sum.splits)

subsection \<open>The local coverage\<close>

lemma coverage_insert_keys:
  "fst ` set (coverage_insert source name cov) = insert source (fst ` set cov)"
  by (induction source name cov rule: coverage_insert.induct) auto

lemma coverage_insert_tests:
  "\<Union> (snd ` set (coverage_insert source name cov)) = insert name (\<Union> (snd ` set cov))"
  by (induction source name cov rule: coverage_insert.induct) auto

lemma foldl_coverage_insert_keys:
  "fst ` set (foldl (\<lambda>cov source. coverage_insert source name cov) cov sources)
     = set sources \<union> fst ` set cov"
  by (induction sources arbitrary: cov) (auto simp: coverage_insert_keys)

lemma foldl_coverage_insert_tests:
  "\<Union> (snd ` set (foldl (\<lambda>cov source. coverage_insert source name cov) cov sources))
     \<subseteq> insert name (\<Union> (snd ` set cov))"
proof (induction sources arbitrary: cov)
  case Nil
  show ?case by auto
next
  case (Cons s sources)
  show ?case
    using Cons[of "coverage_insert s name cov"] by (simp add: coverage_insert_tests)
qed

lemma foldl_coverage_insert_test:
  assumes "(source, tests) \<in> set (foldl (\<lambda>cov source. coverage_insert source name cov) cov sources)"
    and "t \<in> tests"
  shows "t = name \<or> t \<in> \<Union> (snd ` set cov)"
proof -
  have "t \<in> \<Union> (snd ` set (foldl (\<lambda>cov source. coverage_insert source name cov) cov sources))"
    using assms by force
  then show ?thesis using foldl_coverage_insert_tests[of name cov sources] by blast
qed

lemma consolidate_jobs_keys:
  assumes "consolidate_jobs pol jobs ddm cov = (ddm', Inr cov')"
  shows "fst ` set cov' = fst ` set cov \<union>
           {source. \<exists>job \<in> set jobs. \<exists>sourcesCovered.
              GetCoverge job = Some sourcesCovered \<and> source \<in> set sourcesCovered \<and>
              (GetTestResult job = AllTestsPass \<or>
               GetTestResult job = TestFailures \<and> pol \<noteq> FailedTestCoverage.Discard)}"
  using assms
proof (induction jobs arbitrary: ddm cov)
  case Nil
  then show ?case by simp
next
  case (Cons job jobs)
  show ?case
  proof (cases rule: consolidate_job_cases[of job pol ddm cov])
    case raise
    then show ?thesis using Cons.prems by simp
  next
    case (ingest sc)
    have "consolidate_jobs pol jobs (RemoveTestTargetFromSourceCoverage (GetTestTarget job) ddm)
            (foldl (\<lambda>cov source. coverage_insert source (GetTestTarget job) cov) cov sc) = (ddm', Inr cov')"
      using Cons.prems ingest by simp
    from Cons.IH[OF this] show ?thesis
      using ingest(1,2) by (auto simp: foldl_coverage_insert_keys)
  next
    case skip
    have "consolidate_jobs pol jobs (RemoveTestTargetFromSourceCoverage (GetTestTarget job) ddm) cov
            = (ddm', Inr cov')"
      using Cons.prems skip by simp
    from Cons.IH[OF this] show ?thesis
      using skip(1,2) by auto
  qed
qed


lemma repo_sources_eq:
  "repo_sources ext root cov =
     (map (\<lambda>(source, tests). (LexicallyRelative ext source root, tests))
        (filter (\<lambda>(source, tests). IsRelativeTo ext source root) cov),
      map (\<lambda>(source, tests). AZ_Warning source)
        (filter (\<lambda>(source, tests). \<not> IsRelativeTo ext source root) cov))"
  by (induction ext root cov rule: repo_sources.induct) simp_all

lemma repo_sources_keys:
  "fst ` set (fst (repo_sources ext root cov))
     = (\<lambda>source. LexicallyRelative ext source root) ` {source \<in> fst ` set cov. IsRelativeTo ext source root}"
  unfolding repo_sources_eq by force

lemma repo_sources_warnings:
  "set (snd (repo_sources ext root cov))
     = AZ_Warning ` {source \<in> fst ` set cov. \<not> IsRelativeTo ext source root}"
  unfolding repo_sources_eq by force


subsection \<open>Jobs without a coverage artifact\<close>

text \<open>
  C3.  A job without a coverage artifact: if its result is \<open>AllTestsPass\<close>, consolidating
  any batch that contains it raises a \<open>RuntimeException\<close>; if its result is
  \<open>TestFailures\<close>, the loop body only removes the existing coverage of its target and
  raises nothing, and the batch yields the same log and the same list (or exception) as the
  batch without the job.
\<close>

theorem pass_without_coverage_raises_and_failure_without_coverage_is_skipped:
  assumes "GetCoverge job = None"
  shows "(GetTestResult job = AllTestsPass \<longrightarrow> job \<in> set jobs \<longrightarrow>
            (\<exists>ddm' log msg.
               CreateSourceCoveringTestFromTestCoverages ext ddm jobs pol root
                 = (ddm', log, Inl (RuntimeException msg)))) \<and>
         (GetTestResult job = TestFailures \<longrightarrow>
            consolidate_job pol job ddm cov
              = (RemoveTestTargetFromSourceCoverage (GetTestTarget job) ddm, Inr cov) \<and>
            snd (CreateSourceCoveringTestFromTestCoverages ext ddm (pre @ job # post) pol root)
              = snd (CreateSourceCoveringTestFromTestCoverages ext ddm (pre @ post) pol root))"
proof (intro conjI impI)
  assume "GetTestResult job = AllTestsPass" "job \<in> set jobs"
  then obtain msg where "snd (consolidate_jobs pol jobs ddm []) = Inl (RuntimeException msg)"
    using pass_without_coverage_raises[OF _ _ assms] by blast
  then show "\<exists>ddm' log msg.
               CreateSourceCoveringTestFromTestCoverages ext ddm jobs pol root
                 = (ddm', log, Inl (RuntimeException msg))"
    by (cases "consolidate_jobs pol jobs ddm []")
       (simp add: CreateSourceCoveringTestFromTestCoverages_def)
next
  assume f: "GetTestResult job = TestFailures"
  show "consolidate_job pol job ddm cov
          = (RemoveTestTargetFromSourceCoverage (GetTestTarget job) ddm, Inr cov)"
    using f assms by (simp add: consolidate_job_def Let_def)
  show "snd (CreateSourceCoveringTestFromTestCoverages ext ddm (pre @ job # post) pol root)
          = snd (CreateSourceCoveringTestFromTestCoverages ext ddm (pre @ post) pol root)"
    using skipped_job_dropped[OF f, of pol pre post ddm "[]"] assms
    by (simp add: Create_snd)
qed

theorem pass_without_coverage_witness:
  "GetCoverge (example_job ''T1'' AllTestsPass None) = None \<and>
   example_job ''T1'' AllTestsPass None
     \<in> set [example_job ''T2'' TestFailures (Some [''/repo/b.cpp'']), example_job ''T1'' AllTestsPass None] \<and>
   (\<exists>ddm' log msg.
      CreateSourceCoveringTestFromTestCoverages example_External [(''a.cpp'', {''T1''})]
        [example_job ''T2'' TestFailures (Some [''/repo/b.cpp'']), example_job ''T1'' AllTestsPass None]
        FailedTestCoverage.Keep ''/repo''
      = (ddm', log, Inl (RuntimeException msg))) \<and>
   GetCoverge (example_job ''T3'' TestFailures None) = None \<and>
   consolidate_job FailedTestCoverage.Keep (example_job ''T3'' TestFailures None)
       [(''a.cpp'', {''T1'', ''T3''})] [(''/repo/b.cpp'', {''T2''})]
     = ([(''a.cpp'', {''T1''})], Inr [(''/repo/b.cpp'', {''T2''})]) \<and>
   snd (CreateSourceCoveringTestFromTestCoverages example_External [(''a.cpp'', {''T1''})]
          ([example_job ''T2'' TestFailures (Some [''/repo/b.cpp''])] @
             example_job ''T3'' TestFailures None # []) FailedTestCoverage.Keep ''/repo'')
     = ([], Inr [(''b.cpp'', {''T2''})])"
proof -
  have a: "GetCoverge (example_job ''T1'' AllTestsPass None) = None"
    and b: "GetCoverge (example_job ''T3'' TestFailures None) = None"
    by (simp_all add: example_job_def)
  have c: "snd (CreateSourceCoveringTestFromTestCoverages example_External [(''a.cpp'', {''T1''})]
          ([example_job ''T2'' TestFailures (Some [''/repo/b.cpp''])] @ []) FailedTestCoverage.Keep ''/repo'')
     = ([], Inr [(''b.cpp'', {''T2''})])"
    by (simp add: CreateSourceCoveringTestFromTestCoverages_def consolidate_job_def example_job_def
          example_External_def RemoveTestTargetFromSourceCoverage_def)
  have d: "RemoveTestTargetFromSourceCoverage ''T3'' [(''a.cpp'', {''T1'', ''T3''})] = [(''a.cpp'', {''T1''})]"
    by (simp add: RemoveTestTargetFromSourceCoverage_def insert_Diff_if)
  show ?thesis
    using pass_without_coverage_raises_and_failure_without_coverage_is_skipped
            [OF a, of "[example_job ''T2'' TestFailures (Some [''/repo/b.cpp'']), example_job ''T1'' AllTestsPass None]"
               example_External "[(''a.cpp'', {''T1''})]" FailedTestCoverage.Keep "''/repo''"]
          pass_without_coverage_raises_and_failure_without_coverage_is_skipped
            [OF b, of "[]" example_External "[(''a.cpp'', {''T1'', ''T3''})]" FailedTestCoverage.Keep "''/repo''"
               "[(''/repo/b.cpp'', {''T2''})]" "[example_job ''T2'' TestFailures (Some [''/repo/b.cpp''])]" "[]"]
          pass_without_coverage_raises_and_failure_without_coverage_is_skipped
            [OF b, of "[]" example_External "[(''a.cpp'', {''T1''})]" FailedTestCoverage.Keep "''/repo''"
               "[]" "[example_job ''T2'' TestFailures (Some [''/repo/b.cpp''])]" "[]"]
          a b c d
    by (simp add: example_job_def)
qed

lemma Create_Inr:
  assumes "CreateSourceCoveringTestFromTestCoverages ext ddm jobs pol root = (ddm', log, Inr list)"
  obtains cov where "consolidate_jobs pol jobs ddm [] = (ddm', Inr cov)"
    and "list = fst (repo_sources ext root cov)" and "log = snd (repo_sources ext root cov)"
  using assms
  by (auto simp: CreateSourceCoveringTestFromTestCoverages_def split: prod.splits sum.splits)


lemma updated_map_cases:
  assumes "CreateSourceCoveringTestFromTestCoverages ext ddm jobs pol root = (ddm', log, Inr list)"
  shows "updated_map (UpdateAndSerializeDynamicDependencyMap ext ddm jobs pol ipol root file)
           = (if list = [] then ddm' else ReplaceSourceCoverage ext list ddm')"
  using assms
  by (simp add: UpdateAndSerializeDynamicDependencyMap_def GetNumSources_def Let_def
        catch_RuntimeException_def split: sum.splits)


subsection \<open>Removal of existing coverage and discarded failures\<close>





subsection \<open>Sources outside the repository\<close>

lemma Remove_keys:
  "fst ` set (RemoveTestTargetFromSourceCoverage t ddm) \<subseteq> fst ` set ddm"
proof -
  have "map fst (map (\<lambda>(source, tests). (source, tests - {t})) ddm) = map fst ddm"
    by (induction ddm) auto
  then have "fst ` set (map (\<lambda>(source, tests). (source, tests - {t})) ddm) = fst ` set ddm"
    by (metis set_map)
  moreover have "set (RemoveTestTargetFromSourceCoverage t ddm)
                   \<subseteq> set (map (\<lambda>(source, tests). (source, tests - {t})) ddm)"
    unfolding RemoveTestTargetFromSourceCoverage_def by (rule filter_is_subset)
  ultimately show ?thesis by blast
qed

lemma consolidate_jobs_map_keys:
  "fst ` set (fst (consolidate_jobs pol jobs ddm cov)) \<subseteq> fst ` set ddm"
proof (induction jobs arbitrary: ddm cov)
  case Nil
  show ?case by simp
next
  case (Cons job jobs)
  have r: "fst ` set (RemoveTestTargetFromSourceCoverage (GetTestTarget job) ddm) \<subseteq> fst ` set ddm"
    by (rule Remove_keys)
  have IH: "\<And>c. fst ` set (fst (consolidate_jobs pol jobs
                (RemoveTestTargetFromSourceCoverage (GetTestTarget job) ddm) c)) \<subseteq> fst ` set ddm"
    using Cons.IH r by blast
  show ?case
    by (cases rule: consolidate_job_cases[of job pol ddm cov]) (use r IH in simp_all)
qed

lemma updated_file_exported:
  "update_returned (UpdateAndSerializeDynamicDependencyMap ext ddm jobs pol ipol root file) = Inr (Some True)
     \<Longrightarrow> updated_file (UpdateAndSerializeDynamicDependencyMap ext ddm jobs pol ipol root file)
           = Some (ExportSourceCoverage
                     (updated_map (UpdateAndSerializeDynamicDependencyMap ext ddm jobs pol ipol root file)))"
  by (cases "CreateSourceCoveringTestFromTestCoverages ext ddm jobs pol root")
     (auto simp: UpdateAndSerializeDynamicDependencyMap_def catch_RuntimeException_def
        WriteFileContents_def Let_def split: sum.splits if_splits option.splits)

text \<open>
  C5, as the code has it.  The covered sources that count are those of the coverage
  artifacts of the jobs whose coverage is ingested: the jobs with a coverage artifact whose
  result is \<open>AllTestsPass\<close>, or \<open>TestFailures\<close> when the policy is not \<open>Discard\<close>.  When
  consolidation returns a list, the source paths of the list are exactly the
  repository-relative forms (\<open>LexicallyRelative\<close>) of those sources that are under the
  repository root (\<open>IsRelativeTo\<close>), and the log holds exactly a warning for each of those
  sources that is not under the root; a source reported only by other jobs is neither stored
  nor warned about.  So every entry of the list comes from a source under the root and is
  stored in its relative form.  The list exported from the map after the update, which is
  what the update writes to the file when it returns \<open>true\<close>, holds besides such paths only
  paths the map held before, provided \<open>ReplaceSourceCoverage\<close> adds no source beyond those of
  its arguments.
\<close>

theorem sources_outside_repository_not_stored:
  assumes "CreateSourceCoveringTestFromTestCoverages ext ddm jobs pol root = (ddm', log, Inr list)"
  shows "fst ` set list
           = (\<lambda>source. LexicallyRelative ext source root) `
               {source. IsRelativeTo ext source root \<and>
                  (\<exists>job \<in> set jobs. \<exists>sourcesCovered.
                     GetCoverge job = Some sourcesCovered \<and> source \<in> set sourcesCovered \<and>
                     (GetTestResult job = AllTestsPass \<or>
                      GetTestResult job = TestFailures \<and> pol \<noteq> FailedTestCoverage.Discard))} \<and>
         set log
           = AZ_Warning `
               {source. \<not> IsRelativeTo ext source root \<and>
                  (\<exists>job \<in> set jobs. \<exists>sourcesCovered.
                     GetCoverge job = Some sourcesCovered \<and> source \<in> set sourcesCovered \<and>
                     (GetTestResult job = AllTestsPass \<or>
                      GetTestResult job = TestFailures \<and> pol \<noteq> FailedTestCoverage.Discard))} \<and>
         (\<forall>(path, tests) \<in> set list.
            \<exists>source. IsRelativeTo ext source root \<and> path = LexicallyRelative ext source root) \<and>
         ((\<forall>l d. fst ` set (ReplaceSourceCoverage ext l d) \<subseteq> fst ` set l \<union> fst ` set d) \<longrightarrow>
            (\<forall>(path, tests) \<in> set (ExportSourceCoverage
                       (updated_map (UpdateAndSerializeDynamicDependencyMap ext ddm jobs pol ipol root file))).
               path \<in> fst ` set ddm \<or>
               (\<exists>source. IsRelativeTo ext source root \<and> path = LexicallyRelative ext source root))) \<and>
         (update_returned (UpdateAndSerializeDynamicDependencyMap ext ddm jobs pol ipol root file)
            = Inr (Some True) \<longrightarrow>
          updated_file (UpdateAndSerializeDynamicDependencyMap ext ddm jobs pol ipol root file)
            = Some (ExportSourceCoverage
                      (updated_map (UpdateAndSerializeDynamicDependencyMap ext ddm jobs pol ipol root file))))"
proof -
  from assms obtain cov where cj: "consolidate_jobs pol jobs ddm [] = (ddm', Inr cov)"
    and l: "list = fst (repo_sources ext root cov)" and w: "log = snd (repo_sources ext root cov)"
    by (rule Create_Inr)
  let ?covered = "{source. \<exists>job \<in> set jobs. \<exists>sourcesCovered.
                     GetCoverge job = Some sourcesCovered \<and> source \<in> set sourcesCovered \<and>
                     (GetTestResult job = AllTestsPass \<or>
                      GetTestResult job = TestFailures \<and> pol \<noteq> FailedTestCoverage.Discard)}"
  have keys: "fst ` set cov = ?covered"
    using consolidate_jobs_keys[OF cj] by simp
  have a: "fst ` set list
        = (\<lambda>source. LexicallyRelative ext source root) ` {source \<in> ?covered. IsRelativeTo ext source root}"
    unfolding l repo_sources_keys keys ..
  have b: "set log = AZ_Warning ` {source \<in> ?covered. \<not> IsRelativeTo ext source root}"
    unfolding w repo_sources_warnings keys ..
  have s1: "{source \<in> ?covered. IsRelativeTo ext source root}
          = {source. IsRelativeTo ext source root \<and> source \<in> ?covered}" by blast
  have s2: "{source \<in> ?covered. \<not> IsRelativeTo ext source root}
          = {source. \<not> IsRelativeTo ext source root \<and> source \<in> ?covered}" by blast
  have rel: "\<And>path. path \<in> fst ` set list \<Longrightarrow>
               \<exists>source. IsRelativeTo ext source root \<and> path = LexicallyRelative ext source root"
    unfolding a by blast
  have c: "\<forall>(path, tests) \<in> set list.
            \<exists>source. IsRelativeTo ext source root \<and> path = LexicallyRelative ext source root"
  proof (clarify)
    fix path tests assume "(path, tests) \<in> set list"
    then have "path \<in> fst ` set list" by force
    then show "\<exists>source. IsRelativeTo ext source root \<and> path = LexicallyRelative ext source root"
      by (rule rel)
  qed
  have pruned: "fst ` set ddm' \<subseteq> fst ` set ddm"
    using consolidate_jobs_map_keys[of pol jobs ddm "[]"] cj by simp
  have d: "(\<forall>l d. fst ` set (ReplaceSourceCoverage ext l d) \<subseteq> fst ` set l \<union> fst ` set d) \<longrightarrow>
            (\<forall>(path, tests) \<in> set (ExportSourceCoverage
                       (updated_map (UpdateAndSerializeDynamicDependencyMap ext ddm jobs pol ipol root file))).
               path \<in> fst ` set ddm \<or>
               (\<exists>source. IsRelativeTo ext source root \<and> path = LexicallyRelative ext source root))"
  proof (intro impI, clarify)
    fix path tests
    assume r: "\<forall>l d. fst ` set (ReplaceSourceCoverage ext l d) \<subseteq> fst ` set l \<union> fst ` set d"
      and m: "(path, tests) \<in> set (ExportSourceCoverage
                  (updated_map (UpdateAndSerializeDynamicDependencyMap ext ddm jobs pol ipol root file)))"
      and n: "\<not> (\<exists>source. IsRelativeTo ext source root \<and> path = LexicallyRelative ext source root)"
    from m have "path \<in> fst ` set (if list = [] then ddm' else ReplaceSourceCoverage ext list ddm')"
      unfolding updated_map_cases[OF assms] ExportSourceCoverage_def by force
    moreover have "fst ` set (ReplaceSourceCoverage ext list ddm') \<subseteq> fst ` set list \<union> fst ` set ddm'"
      using r by blast
    ultimately have "path \<in> fst ` set list \<union> fst ` set ddm'"
      by (cases "list = []") auto
    then show "path \<in> fst ` set ddm"
      using rel n pruned by blast
  qed
  have e: "update_returned (UpdateAndSerializeDynamicDependencyMap ext ddm jobs pol ipol root file)
            = Inr (Some True) \<longrightarrow>
          updated_file (UpdateAndSerializeDynamicDependencyMap ext ddm jobs pol ipol root file)
            = Some (ExportSourceCoverage
                      (updated_map (UpdateAndSerializeDynamicDependencyMap ext ddm jobs pol ipol root file)))"
    using updated_file_exported by blast
  have a': "fst ` set list
           = (\<lambda>source. LexicallyRelative ext source root) `
               {source. IsRelativeTo ext source root \<and> source \<in> ?covered}"
    using a unfolding s1 .
  have b': "set log = AZ_Warning ` {source. \<not> IsRelativeTo ext source root \<and> source \<in> ?covered}"
    using b unfolding s2 .
  from a' b' c d e show ?thesis
    unfolding mem_Collect_eq by (intro conjI)
qed

lemma example_Replace_adds_no_source:
  "\<forall>l d. fst ` set (ReplaceSourceCoverage example_External l d) \<subseteq> fst ` set l \<union> fst ` set d"
  by (auto simp: example_External_def)

theorem sources_outside_repository_witness:
  "CreateSourceCoveringTestFromTestCoverages example_External scenario_map
       [example_job ''T1'' AllTestsPass (Some [''/repo/a.cpp'', ''/opt/sdk/x.h''])]
       FailedTestCoverage.Keep ''/repo''
     = ([(''b.cpp'', {''T2''}), (''c.cpp'', {''T2''})], [AZ_Warning ''/opt/sdk/x.h''],
        Inr [(''a.cpp'', {''T1''})]) \<and>
   (\<exists>source. IsRelativeTo example_External source ''/repo'' \<and>
              ''a.cpp'' = LexicallyRelative example_External source ''/repo'') \<and>
   \<not> IsRelativeTo example_External ''/opt/sdk/x.h'' ''/repo'' \<and>
   ''/opt/sdk/x.h'' \<notin> fst ` set [(''a.cpp'', {''T1''})] \<and>
   (\<forall>l d. fst ` set (ReplaceSourceCoverage example_External l d) \<subseteq> fst ` set l \<union> fst ` set d) \<and>
   UpdateAndSerializeDynamicDependencyMap example_External scenario_map
       [example_job ''T1'' AllTestsPass (Some [''/repo/a.cpp'', ''/opt/sdk/x.h''])]
       FailedTestCoverage.Keep Continue ''/repo'' None
     = \<lparr>updated_map = [(''a.cpp'', {''T1''}), (''b.cpp'', {''T2''}), (''c.cpp'', {''T2''})],
         updated_file = Some [(''a.cpp'', {''T1''}), (''b.cpp'', {''T2''}), (''c.cpp'', {''T2''})],
         update_log = [AZ_Warning ''/opt/sdk/x.h''],
         update_returned = Inr (Some True)\<rparr> \<and>
   ExportSourceCoverage [(''a.cpp'', {''T1''}), (''b.cpp'', {''T2''}), (''c.cpp'', {''T2''})]
     = [(''a.cpp'', {''T1''}), (''b.cpp'', {''T2''}), (''c.cpp'', {''T2''})] \<and>
   ''/opt/sdk/x.h''
     \<notin> fst ` set (ExportSourceCoverage [(''a.cpp'', {''T1''}), (''b.cpp'', {''T2''}), (''c.cpp'', {''T2''})])"
proof -
  have h: "CreateSourceCoveringTestFromTestCoverages example_External scenario_map
       [example_job ''T1'' AllTestsPass (Some [''/repo/a.cpp'', ''/opt/sdk/x.h''])]
       FailedTestCoverage.Keep ''/repo''
     = ([(''b.cpp'', {''T2''}), (''c.cpp'', {''T2''})], [AZ_Warning ''/opt/sdk/x.h''],
        Inr [(''a.cpp'', {''T1''})])"
    by (simp add: CreateSourceCoveringTestFromTestCoverages_def consolidate_job_def example_job_def
          scenario_map_def RemoveTestTargetFromSourceCoverage_def example_External_def)
  have n: "\<not> IsRelativeTo example_External ''/opt/sdk/x.h'' ''/repo''"
    by (simp add: example_External_def)
  have x: "ExportSourceCoverage [(''a.cpp'', {''T1''}), (''b.cpp'', {''T2''}), (''c.cpp'', {''T2''})]
     = [(''a.cpp'', {''T1''}), (''b.cpp'', {''T2''}), (''c.cpp'', {''T2''})]"
    by (simp add: ExportSourceCoverage_def)
  have u: "UpdateAndSerializeDynamicDependencyMap example_External scenario_map
       [example_job ''T1'' AllTestsPass (Some [''/repo/a.cpp'', ''/opt/sdk/x.h''])]
       FailedTestCoverage.Keep Continue ''/repo'' None
     = \<lparr>updated_map = [(''a.cpp'', {''T1''}), (''b.cpp'', {''T2''}), (''c.cpp'', {''T2''})],
         updated_file = Some [(''a.cpp'', {''T1''}), (''b.cpp'', {''T2''}), (''c.cpp'', {''T2''})],
         update_log = [AZ_Warning ''/opt/sdk/x.h''],
         update_returned = Inr (Some True)\<rparr>"
    by (simp add: UpdateAndSerializeDynamicDependencyMap_def h GetNumSources_def Let_def
          WriteFileContents_def)
       (simp add: example_External_def ExportSourceCoverage_def)
  note T = sources_outside_repository_not_stored[OF h, of Continue None]
  from T have "\<forall>(path, tests) \<in> set [(''a.cpp'', {''T1''})].
      \<exists>source. IsRelativeTo example_External source ''/repo'' \<and>
               path = LexicallyRelative example_External source ''/repo''"
    by (elim conjE)
  then have r: "\<exists>source. IsRelativeTo example_External source ''/repo'' \<and>
              ''a.cpp'' = LexicallyRelative example_External source ''/repo''"
    by simp
  have y: "''/opt/sdk/x.h''
     \<notin> fst ` set (ExportSourceCoverage [(''a.cpp'', {''T1''}), (''b.cpp'', {''T2''}), (''c.cpp'', {''T2''})])"
    by (simp add: x)
  from h r n u x y example_Replace_adds_no_source show ?thesis by simp
qed

text \<open>
  The claim as stated fails for a job whose coverage is not ingested.  The job of \<open>T1\<close>
  reports a source under the root and a source outside it.  When it has failing tests and
  the policy is \<open>Discard\<close>, or when it timed out, the source under the root is not stored
  and no warning is emitted for the source outside it: the list and the log are empty.
\<close>

theorem sources_of_job_not_ingested_counterexample:
  "GetCoverge (example_job ''T1'' TestFailures (Some [''/repo/a.cpp'', ''/opt/sdk/x.h'']))
     = Some [''/repo/a.cpp'', ''/opt/sdk/x.h''] \<and>
   IsRelativeTo example_External ''/repo/a.cpp'' ''/repo'' \<and>
   \<not> IsRelativeTo example_External ''/opt/sdk/x.h'' ''/repo'' \<and>
   CreateSourceCoveringTestFromTestCoverages example_External scenario_map
       [example_job ''T1'' TestFailures (Some [''/repo/a.cpp'', ''/opt/sdk/x.h''])]
       FailedTestCoverage.Discard ''/repo''
     = ([(''b.cpp'', {''T2''}), (''c.cpp'', {''T2''})], [], Inr []) \<and>
   CreateSourceCoveringTestFromTestCoverages example_External scenario_map
       [example_job ''T1'' TestRunResult.Timeout (Some [''/repo/a.cpp'', ''/opt/sdk/x.h''])]
       FailedTestCoverage.Keep ''/repo''
     = ([(''b.cpp'', {''T2''}), (''c.cpp'', {''T2''})], [], Inr [])"
  by (simp add: CreateSourceCoveringTestFromTestCoverages_def consolidate_job_def example_job_def
        scenario_map_def RemoveTestTargetFromSourceCoverage_def example_External_def)

section \<open>Properties of the update of the dynamic dependency map\<close>

lemma Create_map:
  "\<exists>k \<le> length jobs.
     fst (CreateSourceCoveringTestFromTestCoverages ext ddm jobs pol root)
       = foldl (\<lambda>d job. RemoveTestTargetFromSourceCoverage (GetTestTarget job) d) ddm (take k jobs) \<and>
     (isl (snd (snd (CreateSourceCoveringTestFromTestCoverages ext ddm jobs pol root))) \<longrightarrow> 0 < k) \<and>
     (\<not> isl (snd (snd (CreateSourceCoveringTestFromTestCoverages ext ddm jobs pol root)))
        \<longrightarrow> k = length jobs)"
  unfolding Create_fst Create_isl by (rule consolidate_jobs_map)

text \<open>
  C2, as the code has it.  A \<open>RuntimeException\<close> is raised during the update when
  consolidation raises or when the consolidated list is not empty and writing the file
  fails.  It leaves the update if and only if the integrity failure policy is \<open>Abort\<close>;
  otherwise it is logged as an error, the update returns no value and the file is as before.
  The map is not put back: it is the map consolidation has pruned (the existing coverage of
  the targets of the first \<open>k\<close> jobs removed, with \<open>k\<close> at least one when consolidation
  raised), and when the exception comes from writing the file the pruned map has already
  been replaced.  When the consolidated list is empty the update returns no value, writes no
  log entry of its own and leaves the file as before, and the map is the map before the
  update with the existing coverage of the targets of all the jobs removed.
\<close>

theorem update_exception_policy_and_pruned_map:
  "(isl (update_returned (UpdateAndSerializeDynamicDependencyMap ext ddm jobs fpol ipol root file))
      \<longleftrightarrow> ipol = Abort \<and>
          (isl (snd (snd (CreateSourceCoveringTestFromTestCoverages ext ddm jobs fpol root))) \<or>
           (\<exists>list. snd (snd (CreateSourceCoveringTestFromTestCoverages ext ddm jobs fpol root)) = Inr list \<and>
                   list \<noteq> [] \<and> WriteFileContents_failure ext \<noteq> None))) \<and>
   (ipol \<noteq> Abort \<longrightarrow>
      (\<forall>e. snd (snd (CreateSourceCoveringTestFromTestCoverages ext ddm jobs fpol root)) = Inl e \<longrightarrow>
         UpdateAndSerializeDynamicDependencyMap ext ddm jobs fpol ipol root file
           = \<lparr>updated_map = fst (CreateSourceCoveringTestFromTestCoverages ext ddm jobs fpol root),
               updated_file = file, update_log = [AZ_Error (what e)], update_returned = Inr None\<rparr>) \<and>
      (\<forall>list msg. snd (snd (CreateSourceCoveringTestFromTestCoverages ext ddm jobs fpol root)) = Inr list \<and>
           list \<noteq> [] \<and> WriteFileContents_failure ext = Some msg \<longrightarrow>
         UpdateAndSerializeDynamicDependencyMap ext ddm jobs fpol ipol root file
           = \<lparr>updated_map = ReplaceSourceCoverage ext list
                                (fst (CreateSourceCoveringTestFromTestCoverages ext ddm jobs fpol root)),
               updated_file = file,
               update_log = fst (snd (CreateSourceCoveringTestFromTestCoverages ext ddm jobs fpol root))
                              @ [AZ_Error msg],
               update_returned = Inr None\<rparr>)) \<and>
   (snd (snd (CreateSourceCoveringTestFromTestCoverages ext ddm jobs fpol root)) = Inr [] \<longrightarrow>
      UpdateAndSerializeDynamicDependencyMap ext ddm jobs fpol ipol root file
        = \<lparr>updated_map = foldl (\<lambda>d job. RemoveTestTargetFromSourceCoverage (GetTestTarget job) d) ddm jobs,
            updated_file = file,
            update_log = fst (snd (CreateSourceCoveringTestFromTestCoverages ext ddm jobs fpol root)),
            update_returned = Inr None\<rparr>) \<and>
   (\<exists>k \<le> length jobs.
      fst (CreateSourceCoveringTestFromTestCoverages ext ddm jobs fpol root)
        = foldl (\<lambda>d job. RemoveTestTargetFromSourceCoverage (GetTestTarget job) d) ddm (take k jobs) \<and>
      (isl (snd (snd (CreateSourceCoveringTestFromTestCoverages ext ddm jobs fpol root))) \<longrightarrow> 0 < k))"
proof -
  obtain d log r where c: "CreateSourceCoveringTestFromTestCoverages ext ddm jobs fpol root = (d, log, r)"
    by (cases "CreateSourceCoveringTestFromTestCoverages ext ddm jobs fpol root") auto
  have raised_log: "isl r \<Longrightarrow> log = []"
    using c by (auto simp: CreateSourceCoveringTestFromTestCoverages_def split: prod.splits sum.splits)
  obtain k where k: "k \<le> length jobs"
      "d = foldl (\<lambda>d job. RemoveTestTargetFromSourceCoverage (GetTestTarget job) d) ddm (take k jobs)"
      "isl r \<longrightarrow> 0 < k" "\<not> isl r \<longrightarrow> k = length jobs"
    using Create_map[of jobs ext ddm fpol root] unfolding c by auto
  have p1: "isl (update_returned (UpdateAndSerializeDynamicDependencyMap ext ddm jobs fpol ipol root file))
      \<longleftrightarrow> ipol = Abort \<and>
          (isl r \<or> (\<exists>list. r = Inr list \<and> list \<noteq> [] \<and> WriteFileContents_failure ext \<noteq> None))"
    by (cases r; cases "WriteFileContents_failure ext")
       (auto simp: UpdateAndSerializeDynamicDependencyMap_def c catch_RuntimeException_def
          GetNumSources_def WriteFileContents_def Let_def)
  have p2: "ipol \<noteq> Abort \<Longrightarrow> r = Inl e \<Longrightarrow>
         UpdateAndSerializeDynamicDependencyMap ext ddm jobs fpol ipol root file
           = \<lparr>updated_map = d, updated_file = file, update_log = [AZ_Error (what e)],
               update_returned = Inr None\<rparr>" for e
    using raised_log
    by (simp add: UpdateAndSerializeDynamicDependencyMap_def c catch_RuntimeException_def)
  have p3: "ipol \<noteq> Abort \<Longrightarrow> r = Inr list \<and> list \<noteq> [] \<and> WriteFileContents_failure ext = Some msg \<Longrightarrow>
         UpdateAndSerializeDynamicDependencyMap ext ddm jobs fpol ipol root file
           = \<lparr>updated_map = ReplaceSourceCoverage ext list d, updated_file = file,
               update_log = log @ [AZ_Error msg], update_returned = Inr None\<rparr>" for list msg
    by (simp add: UpdateAndSerializeDynamicDependencyMap_def c catch_RuntimeException_def
          GetNumSources_def WriteFileContents_def Let_def)
  have p4: "r = Inr [] \<Longrightarrow>
      UpdateAndSerializeDynamicDependencyMap ext ddm jobs fpol ipol root file
        = \<lparr>updated_map = foldl (\<lambda>d job. RemoveTestTargetFromSourceCoverage (GetTestTarget job) d) ddm jobs,
            updated_file = file, update_log = log, update_returned = Inr None\<rparr>"
    using k(2,4)
    by (simp add: UpdateAndSerializeDynamicDependencyMap_def c GetNumSources_def)
  have p5: "\<exists>k \<le> length jobs.
      d = foldl (\<lambda>d job. RemoveTestTargetFromSourceCoverage (GetTestTarget job) d) ddm (take k jobs) \<and>
      (isl r \<longrightarrow> 0 < k)"
    using k by blast
  show ?thesis
    unfolding c fst_conv snd_conv
    using p1 p2 p3 p4 p5 by blast
qed

theorem update_exception_policy_witness:
  "Continue \<noteq> Abort \<and>
   snd (snd (CreateSourceCoveringTestFromTestCoverages example_External scenario_map
               [example_job ''T1'' AllTestsPass None] FailedTestCoverage.Keep ''/repo''))
     = Inl (RuntimeException (no_coverage_message (example_job ''T1'' AllTestsPass None))) \<and>
   UpdateAndSerializeDynamicDependencyMap example_External scenario_map
       [example_job ''T1'' AllTestsPass None] FailedTestCoverage.Keep Continue ''/repo''
       (Some scenario_map)
     = \<lparr>updated_map = [(''b.cpp'', {''T2''}), (''c.cpp'', {''T2''})],
         updated_file = Some scenario_map,
         update_log = [AZ_Error (no_coverage_message (example_job ''T1'' AllTestsPass None))],
         update_returned = Inr None\<rparr> \<and>
   isl (update_returned (UpdateAndSerializeDynamicDependencyMap example_External scenario_map
       [example_job ''T1'' AllTestsPass None] FailedTestCoverage.Keep Abort ''/repo''
       (Some scenario_map))) \<and>
   snd (snd (CreateSourceCoveringTestFromTestCoverages example_External scenario_map
               [example_job ''T1'' TestFailures None] FailedTestCoverage.Keep ''/repo''))
     = Inr [] \<and>
   UpdateAndSerializeDynamicDependencyMap example_External scenario_map
       [example_job ''T1'' TestFailures None] FailedTestCoverage.Keep Abort ''/repo''
       (Some scenario_map)
     = \<lparr>updated_map = [(''b.cpp'', {''T2''}), (''c.cpp'', {''T2''})],
         updated_file = Some scenario_map, update_log = [], update_returned = Inr None\<rparr>"
proof -
  have c1: "CreateSourceCoveringTestFromTestCoverages example_External scenario_map
               [example_job ''T1'' AllTestsPass None] FailedTestCoverage.Keep ''/repo''
     = ([(''b.cpp'', {''T2''}), (''c.cpp'', {''T2''})], [],
        Inl (RuntimeException (no_coverage_message (example_job ''T1'' AllTestsPass None))))"
    by (simp add: CreateSourceCoveringTestFromTestCoverages_def consolidate_job_def example_job_def
          scenario_map_def RemoveTestTargetFromSourceCoverage_def)
  have c2: "CreateSourceCoveringTestFromTestCoverages example_External scenario_map
               [example_job ''T1'' TestFailures None] FailedTestCoverage.Keep ''/repo''
     = ([(''b.cpp'', {''T2''}), (''c.cpp'', {''T2''})], [], Inr [])"
    by (simp add: CreateSourceCoveringTestFromTestCoverages_def consolidate_job_def example_job_def
          scenario_map_def RemoveTestTargetFromSourceCoverage_def)
  have r: "RemoveTestTargetFromSourceCoverage (GetTestTarget (example_job ''T1'' TestFailures None))
             scenario_map
           = [(''b.cpp'', {''T2''}), (''c.cpp'', {''T2''})]"
    by (simp add: example_job_def scenario_map_def RemoveTestTargetFromSourceCoverage_def)
  show ?thesis
    using update_exception_policy_and_pruned_map
            [of example_External scenario_map "[example_job ''T1'' AllTestsPass None]"
                FailedTestCoverage.Keep Continue "''/repo''" "Some scenario_map"]
          update_exception_policy_and_pruned_map
            [of example_External scenario_map "[example_job ''T1'' AllTestsPass None]"
                FailedTestCoverage.Keep Abort "''/repo''" "Some scenario_map"]
          update_exception_policy_and_pruned_map
            [of example_External scenario_map "[example_job ''T1'' TestFailures None]"
                FailedTestCoverage.Keep Abort "''/repo''" "Some scenario_map"]
    by (simp add: c1 c2 r)
qed

text \<open>
  The claim as stated fails: with the policy \<open>Continue\<close>, a passing job without coverage
  makes consolidation raise, the exception is swallowed, and the map has lost the coverage of
  the job's target; and a failing job without coverage gives an empty consolidated list, no
  exception, and again a map that has lost the coverage of the target.
\<close>

theorem update_leaves_map_unchanged_counterexample:
  "isl (snd (snd (CreateSourceCoveringTestFromTestCoverages example_External
                    [(''a.cpp'', {''T1''}), (''b.cpp'', {''T2''})]
                    [example_job ''T1'' AllTestsPass None] FailedTestCoverage.Keep ''/repo''))) \<and>
   update_returned (UpdateAndSerializeDynamicDependencyMap example_External
                      [(''a.cpp'', {''T1''}), (''b.cpp'', {''T2''})]
                      [example_job ''T1'' AllTestsPass None] FailedTestCoverage.Keep Continue ''/repo''
                      (Some [(''a.cpp'', {''T1''}), (''b.cpp'', {''T2''})]))
     = Inr None \<and>
   updated_map (UpdateAndSerializeDynamicDependencyMap example_External
                  [(''a.cpp'', {''T1''}), (''b.cpp'', {''T2''})]
                  [example_job ''T1'' AllTestsPass None] FailedTestCoverage.Keep Continue ''/repo''
                  (Some [(''a.cpp'', {''T1''}), (''b.cpp'', {''T2''})]))
     \<noteq> [(''a.cpp'', {''T1''}), (''b.cpp'', {''T2''})] \<and>
   snd (snd (CreateSourceCoveringTestFromTestCoverages example_External
               [(''a.cpp'', {''T1''}), (''b.cpp'', {''T2''})]
               [example_job ''T1'' TestFailures None] FailedTestCoverage.Keep ''/repo''))
     = Inr [] \<and>
   updated_map (UpdateAndSerializeDynamicDependencyMap example_External
                  [(''a.cpp'', {''T1''}), (''b.cpp'', {''T2''})]
                  [example_job ''T1'' TestFailures None] FailedTestCoverage.Keep Continue ''/repo''
                  (Some [(''a.cpp'', {''T1''}), (''b.cpp'', {''T2''})]))
     = [(''b.cpp'', {''T2''})]"
  by (simp add: UpdateAndSerializeDynamicDependencyMap_def catch_RuntimeException_def
        CreateSourceCoveringTestFromTestCoverages_def consolidate_job_def example_job_def
        RemoveTestTargetFromSourceCoverage_def GetNumSources_def)

section \<open>Properties of the test sequences\<close>

subsection \<open>Seeded sequence\<close>








subsection \<open>Impact analysis sequences\<close>

lemma updateCoverage_keeps:
  "m_testEngine (fst (NativeRuntime_updateCoverage ext jobs rt)) = m_testEngine rt"
  "m_testTargets (fst (NativeRuntime_updateCoverage ext jobs rt)) = m_testTargets rt"
  by (simp_all add: NativeRuntime_updateCoverage_def Let_def split: sum.splits)

lemma updateCoverage_engineD:
  "NativeRuntime_updateCoverage ext jobs rt = (rt', e) \<Longrightarrow> m_testEngine rt' = m_testEngine rt"
  using updateCoverage_keeps(1)[of ext jobs rt] by simp

lemma gather_InstrumentedRun:
  "gatherTestRunData (\<lambda>testsTargets. InstrumentedRun ext testsTargets tto timeout) targets rt
     = (\<lparr>m_result = fst (InstrumentedRun_answer ext
                             (m_testEngine rt @ [InstrumentedRunCall targets tto timeout])),
          m_jobs = fst (snd (InstrumentedRun_answer ext
                             (m_testEngine rt @ [InstrumentedRunCall targets tto timeout]))),
          m_duration = snd (snd (InstrumentedRun_answer ext
                             (m_testEngine rt @ [InstrumentedRunCall targets tto timeout])))\<rparr>,
        rt\<lparr>m_testEngine := m_testEngine rt @ [InstrumentedRunCall targets tto timeout]\<rparr>)"
  by (simp add: gatherTestRunData_def InstrumentedRun_def Let_def split: prod.splits)

lemma gather_RegularRun:
  "gatherTestRunData (\<lambda>testsTargets. RegularRun ext testsTargets tto timeout) targets rt
     = (\<lparr>m_result = fst (RegularRun_answer ext
                             (m_testEngine rt @ [RegularRunCall targets tto timeout])),
          m_jobs = fst (snd (RegularRun_answer ext
                             (m_testEngine rt @ [RegularRunCall targets tto timeout]))),
          m_duration = snd (snd (RegularRun_answer ext
                             (m_testEngine rt @ [RegularRunCall targets tto timeout])))\<rparr>,
        rt\<lparr>m_testEngine := m_testEngine rt @ [RegularRunCall targets tto timeout]\<rparr>)"
  by (simp add: gatherTestRunData_def RegularRun_def Let_def split: prod.splits)

lemma Wrapper_instrumented_engine:
  "m_testEngine (fst (ImpactAnalysisTestSequenceWrapper
       (\<lambda>testsTargets timeout. InstrumentedRun ext testsTargets tto timeout)
       included excluded discarded drafted tto gto cb (Some (NativeRuntime_updateCoverage ext)) rt))
     = m_testEngine rt
         @ (if included \<noteq> [] then [InstrumentedRunCall included tto gto] else [])
         @ (if drafted \<noteq> [] then [InstrumentedRunCall drafted tto gto] else [])"
  by (auto simp: ImpactAnalysisTestSequenceWrapper_def gather_InstrumentedRun Let_def
        split: prod.splits option.splits dest!: updateCoverage_engineD)

lemma Wrapper_regular_engine:
  "m_testEngine (fst (ImpactAnalysisTestSequenceWrapper
       (\<lambda>testsTargets timeout. RegularRun ext testsTargets tto timeout)
       included excluded discarded drafted tto gto cb None rt))
     = m_testEngine rt
         @ (if included \<noteq> [] then [RegularRunCall included tto gto] else [])
         @ (if drafted \<noteq> [] then [RegularRunCall drafted tto gto] else [])"
  by (simp add: ImpactAnalysisTestSequenceWrapper_def gather_RegularRun Let_def
        split: prod.splits option.splits)

lemma Wrapper_observed:
  "fst (snd (ImpactAnalysisTestSequenceWrapper testRunner included excluded discarded drafted
               tto gto cb update rt))
     = (if cb then Some ((included, excluded), discarded, drafted) else None)"
  "snd (snd (ImpactAnalysisTestSequenceWrapper testRunner included excluded discarded drafted
               tto gto cb update rt)) = Inr r
     \<Longrightarrow> report_selectedTests r = (included, excluded) \<and> report_discardedTests r = discarded \<and>
         report_draftedTests r = drafted"
  by (auto simp: ImpactAnalysisTestSequenceWrapper_def Let_def
        split: prod.splits option.splits if_splits)

lemma Select_keeps:
  "m_testEngine (snd (SelectCoveringTestTargets ext rt)) = m_testEngine rt"
  "m_testTargets (snd (SelectCoveringTestTargets ext rt)) = m_testTargets rt"
  "m_instrumentedTestTargetExcludeList (snd (SelectCoveringTestTargets ext rt))
     = m_instrumentedTestTargetExcludeList rt"
  "m_regularTestTargetExcludeList (snd (SelectCoveringTestTargets ext rt))
     = m_regularTestTargetExcludeList rt"
  "fst (SelectCoveringTestTargets ext rt)
     = (snd (SelectTestTargets ext (m_dynamicDependencyMap rt)),
        filter (\<lambda>testTarget. testTarget \<notin> set (snd (SelectTestTargets ext (m_dynamicDependencyMap rt))))
          (m_testTargets rt))"
  by (simp_all add: SelectCoveringTestTargets_def split: prod.splits)

lemma ImpactAnalysis_unfold:
  "ImpactAnalysisTestSequence ext pol tto gto cb rt =
     (if pol = Update
      then ImpactAnalysisTestSequenceWrapper
             (\<lambda>testsTargets timeout. InstrumentedRun ext testsTargets tto timeout)
             (filter (\<lambda>t. \<not> IsTestTargetFullyExcluded (m_instrumentedTestTargetExcludeList rt) t)
                (snd (SelectTestTargets ext (m_dynamicDependencyMap rt))))
             (filter (IsTestTargetFullyExcluded (m_instrumentedTestTargetExcludeList rt))
                (snd (SelectTestTargets ext (m_dynamicDependencyMap rt))))
             (filter (\<lambda>t. t \<notin> set (GetNotCoveringTests (m_testTargets rt) (m_dynamicDependencyMap rt)))
                (filter (\<lambda>t. t \<notin> set (snd (SelectTestTargets ext (m_dynamicDependencyMap rt))))
                   (m_testTargets rt)))
             (GetNotCoveringTests (m_testTargets rt) (m_dynamicDependencyMap rt))
             tto gto cb (Some (NativeRuntime_updateCoverage ext))
             (snd (SelectCoveringTestTargets ext rt))
      else ImpactAnalysisTestSequenceWrapper
             (\<lambda>testsTargets timeout. RegularRun ext testsTargets tto timeout)
             (filter (\<lambda>t. \<not> IsTestTargetFullyExcluded (m_instrumentedTestTargetExcludeList rt) t)
                (snd (SelectTestTargets ext (m_dynamicDependencyMap rt))))
             (filter (IsTestTargetFullyExcluded (m_instrumentedTestTargetExcludeList rt))
                (snd (SelectTestTargets ext (m_dynamicDependencyMap rt))))
             (filter (\<lambda>t. t \<notin> set (GetNotCoveringTests (m_testTargets rt) (m_dynamicDependencyMap rt)))
                (filter (\<lambda>t. t \<notin> set (snd (SelectTestTargets ext (m_dynamicDependencyMap rt))))
                   (m_testTargets rt)))
             (GetNotCoveringTests (m_testTargets rt) (m_dynamicDependencyMap rt))
             tto gto cb None
             (snd (SelectCoveringTestTargets ext rt)))"
proof -
  obtain sel disc rt1 where s: "SelectCoveringTestTargets ext rt = ((sel, disc), rt1)"
    by (cases "SelectCoveringTestTargets ext rt") auto
  have f: "sel = snd (SelectTestTargets ext (m_dynamicDependencyMap rt))"
    "disc = filter (\<lambda>t. t \<notin> set (snd (SelectTestTargets ext (m_dynamicDependencyMap rt)))) (m_testTargets rt)"
    "m_instrumentedTestTargetExcludeList rt1 = m_instrumentedTestTargetExcludeList rt"
    using Select_keeps(3,5)[of ext rt] by (simp_all add: s)
  show ?thesis
    by (simp add: ImpactAnalysisTestSequence_def Let_def s f SelectTestTargetsByExcludeList_def)
qed

lemma ImpactAnalysis_engine:
  "m_testEngine (fst (ImpactAnalysisTestSequence ext pol tto gto cb rt))
     = m_testEngine rt
        @ (if filter (\<lambda>t. \<not> IsTestTargetFullyExcluded (m_instrumentedTestTargetExcludeList rt) t)
                (snd (SelectTestTargets ext (m_dynamicDependencyMap rt))) \<noteq> []
           then [if pol = Update
                 then InstrumentedRunCall
                        (filter (\<lambda>t. \<not> IsTestTargetFullyExcluded (m_instrumentedTestTargetExcludeList rt) t)
                           (snd (SelectTestTargets ext (m_dynamicDependencyMap rt)))) tto gto
                 else RegularRunCall
                        (filter (\<lambda>t. \<not> IsTestTargetFullyExcluded (m_instrumentedTestTargetExcludeList rt) t)
                           (snd (SelectTestTargets ext (m_dynamicDependencyMap rt)))) tto gto]
           else [])
        @ (if GetNotCoveringTests (m_testTargets rt) (m_dynamicDependencyMap rt) \<noteq> []
           then [if pol = Update
                 then InstrumentedRunCall
                        (GetNotCoveringTests (m_testTargets rt) (m_dynamicDependencyMap rt)) tto gto
                 else RegularRunCall
                        (GetNotCoveringTests (m_testTargets rt) (m_dynamicDependencyMap rt)) tto gto]
           else [])"
  unfolding ImpactAnalysis_unfold
  by (simp add: Wrapper_instrumented_engine Wrapper_regular_engine Select_keeps)

lemma Safe_last_call:
  assumes "GetNotCoveringTests (m_testTargets rt) (m_dynamicDependencyMap rt) \<noteq> []"
  shows "call_targets (last (m_testEngine (fst (SafeImpactAnalysisTestSequence ext tto gto cb rt))))
           = GetNotCoveringTests (m_testTargets rt) (m_dynamicDependencyMap rt)"
proof -
  obtain sel disc rt1 where s: "SelectCoveringTestTargets ext rt = ((sel, disc), rt1)"
    by (cases "SelectCoveringTestTargets ext rt") auto
  show ?thesis
    using assms
    by (auto simp: SafeImpactAnalysisTestSequence_def Let_def s gather_InstrumentedRun
          gather_RegularRun split: prod.splits option.splits dest!: updateCoverage_engineD)
qed

lemmas sequence_evaluation =
  ImpactAnalysisTestSequence_def ImpactAnalysisTestSequenceWrapper_def
  SafeImpactAnalysisTestSequence_def gatherTestRunData_def InstrumentedRun_def RegularRun_def
  SelectCoveringTestTargets_def SelectTestTargetsByExcludeList_def IsTestTargetFullyExcluded_def
  GetNotCoveringTests_def timeout_External_def example_External_def scenario_runtime_def
  excluding_runtime_def scenario_map_def NativeRuntime_updateCoverage_def
  UpdateAndSerializeDynamicDependencyMap_def CreateSourceCoveringTestFromTestCoverages_def
  consolidate_job_def example_job_def RemoveTestTargetFromSourceCoverage_def GetNumSources_def
  TestRunData_default_def GenerateTestRunReport_def WriteFileContents_def
  ExportSourceCoverage_def catch_RuntimeException_def Let_def

text \<open>
  C9.  In the impact analysis sequence the engine is asked for at most two runs: the selected
  test targets that are not fully excluded and then the drafted test targets, which are
  exactly what \<open>GetNotCoveringTests\<close> returned, with no exclude list applied.  In the safe
  sequence too the last run is that of the drafted test targets as \<open>GetNotCoveringTests\<close>
  returned them.  So a test target of the list that no entry of the map names is in the last
  run of both sequences, fully excluded or not.
\<close>

theorem drafted_targets_run_without_exclude_filter:
  "m_testEngine (fst (ImpactAnalysisTestSequence ext pol tto gto cb rt))
     = m_testEngine rt
        @ (if filter (\<lambda>t. \<not> IsTestTargetFullyExcluded (m_instrumentedTestTargetExcludeList rt) t)
                (snd (SelectTestTargets ext (m_dynamicDependencyMap rt))) \<noteq> []
           then [if pol = Update
                 then InstrumentedRunCall
                        (filter (\<lambda>t. \<not> IsTestTargetFullyExcluded (m_instrumentedTestTargetExcludeList rt) t)
                           (snd (SelectTestTargets ext (m_dynamicDependencyMap rt)))) tto gto
                 else RegularRunCall
                        (filter (\<lambda>t. \<not> IsTestTargetFullyExcluded (m_instrumentedTestTargetExcludeList rt) t)
                           (snd (SelectTestTargets ext (m_dynamicDependencyMap rt)))) tto gto]
           else [])
        @ (if GetNotCoveringTests (m_testTargets rt) (m_dynamicDependencyMap rt) \<noteq> []
           then [if pol = Update
                 then InstrumentedRunCall
                        (GetNotCoveringTests (m_testTargets rt) (m_dynamicDependencyMap rt)) tto gto
                 else RegularRunCall
                        (GetNotCoveringTests (m_testTargets rt) (m_dynamicDependencyMap rt)) tto gto]
           else []) \<and>
   (GetNotCoveringTests (m_testTargets rt) (m_dynamicDependencyMap rt) \<noteq> [] \<longrightarrow>
      call_targets (last (m_testEngine (fst (ImpactAnalysisTestSequence ext pol tto gto cb rt))))
        = GetNotCoveringTests (m_testTargets rt) (m_dynamicDependencyMap rt) \<and>
      call_targets (last (m_testEngine (fst (SafeImpactAnalysisTestSequence ext tto gto cb rt))))
        = GetNotCoveringTests (m_testTargets rt) (m_dynamicDependencyMap rt)) \<and>
   (t \<in> set (m_testTargets rt) \<and> (\<forall>(source, tests) \<in> set (m_dynamicDependencyMap rt). t \<notin> tests) \<longrightarrow>
      t \<in> set (call_targets (last (m_testEngine
                 (fst (ImpactAnalysisTestSequence ext pol tto gto cb rt))))) \<and>
      t \<in> set (call_targets (last (m_testEngine
                 (fst (SafeImpactAnalysisTestSequence ext tto gto cb rt))))))"
proof (intro conjI impI)
  show "m_testEngine (fst (ImpactAnalysisTestSequence ext pol tto gto cb rt))
     = m_testEngine rt
        @ (if filter (\<lambda>t. \<not> IsTestTargetFullyExcluded (m_instrumentedTestTargetExcludeList rt) t)
                (snd (SelectTestTargets ext (m_dynamicDependencyMap rt))) \<noteq> []
           then [if pol = Update
                 then InstrumentedRunCall
                        (filter (\<lambda>t. \<not> IsTestTargetFullyExcluded (m_instrumentedTestTargetExcludeList rt) t)
                           (snd (SelectTestTargets ext (m_dynamicDependencyMap rt)))) tto gto
                 else RegularRunCall
                        (filter (\<lambda>t. \<not> IsTestTargetFullyExcluded (m_instrumentedTestTargetExcludeList rt) t)
                           (snd (SelectTestTargets ext (m_dynamicDependencyMap rt)))) tto gto]
           else [])
        @ (if GetNotCoveringTests (m_testTargets rt) (m_dynamicDependencyMap rt) \<noteq> []
           then [if pol = Update
                 then InstrumentedRunCall
                        (GetNotCoveringTests (m_testTargets rt) (m_dynamicDependencyMap rt)) tto gto
                 else RegularRunCall
                        (GetNotCoveringTests (m_testTargets rt) (m_dynamicDependencyMap rt)) tto gto]
           else [])"
    by (rule ImpactAnalysis_engine)
next
  assume d: "GetNotCoveringTests (m_testTargets rt) (m_dynamicDependencyMap rt) \<noteq> []"
  show "call_targets (last (m_testEngine (fst (ImpactAnalysisTestSequence ext pol tto gto cb rt))))
        = GetNotCoveringTests (m_testTargets rt) (m_dynamicDependencyMap rt)"
    using d by (simp add: ImpactAnalysis_engine)
  show "call_targets (last (m_testEngine (fst (SafeImpactAnalysisTestSequence ext tto gto cb rt))))
        = GetNotCoveringTests (m_testTargets rt) (m_dynamicDependencyMap rt)"
    using d by (rule Safe_last_call)
next
  assume "t \<in> set (m_testTargets rt) \<and> (\<forall>(source, tests) \<in> set (m_dynamicDependencyMap rt). t \<notin> tests)"
  then have t: "t \<in> set (GetNotCoveringTests (m_testTargets rt) (m_dynamicDependencyMap rt))"
    by (simp add: GetNotCoveringTests_def)
  then have d: "GetNotCoveringTests (m_testTargets rt) (m_dynamicDependencyMap rt) \<noteq> []" by auto
  show "t \<in> set (call_targets (last (m_testEngine
                 (fst (ImpactAnalysisTestSequence ext pol tto gto cb rt)))))"
    using d t by (simp add: ImpactAnalysis_engine)
  show "t \<in> set (call_targets (last (m_testEngine
                 (fst (SafeImpactAnalysisTestSequence ext tto gto cb rt)))))"
    using t by (simp add: Safe_last_call[OF d])
qed

theorem drafted_targets_witness:
  "IsTestTargetFullyExcluded (m_instrumentedTestTargetExcludeList excluding_runtime) ''T3'' \<and>
   IsTestTargetFullyExcluded (m_instrumentedTestTargetExcludeList excluding_runtime) ''T1'' \<and>
   snd (SelectTestTargets timeout_External (m_dynamicDependencyMap excluding_runtime)) = [''T1''] \<and>
   ''T3'' \<in> set (m_testTargets excluding_runtime) \<and>
   GetNotCoveringTests (m_testTargets excluding_runtime) (m_dynamicDependencyMap excluding_runtime)
     = [''T3''] \<and>
   m_testEngine (fst (ImpactAnalysisTestSequence timeout_External Update None None False
                        excluding_runtime))
     = [InstrumentedRunCall [''T3''] None None] \<and>
   ''T3'' \<in> set (call_targets (last (m_testEngine
                (fst (ImpactAnalysisTestSequence timeout_External Update None None False
                        excluding_runtime))))) \<and>
   ''T3'' \<in> set (call_targets (last (m_testEngine
                (fst (SafeImpactAnalysisTestSequence timeout_External None None False
                        excluding_runtime)))))"
proof -
  have h: "''T3'' \<in> set (m_testTargets excluding_runtime) \<and>
           (\<forall>(source, tests) \<in> set (m_dynamicDependencyMap excluding_runtime). ''T3'' \<notin> tests)"
    by (simp add: excluding_runtime_def scenario_runtime_def scenario_map_def)
  have e: "IsTestTargetFullyExcluded (m_instrumentedTestTargetExcludeList excluding_runtime) ''T3''"
    "IsTestTargetFullyExcluded (m_instrumentedTestTargetExcludeList excluding_runtime) ''T1''"
    "snd (SelectTestTargets timeout_External (m_dynamicDependencyMap excluding_runtime)) = [''T1'']"
    "GetNotCoveringTests (m_testTargets excluding_runtime) (m_dynamicDependencyMap excluding_runtime)
       = [''T3'']"
    "m_testEngine excluding_runtime = []"
    by (simp_all add: excluding_runtime_def scenario_runtime_def scenario_map_def
          IsTestTargetFullyExcluded_def timeout_External_def example_External_def
          GetNotCoveringTests_def)
  show ?thesis
    using drafted_targets_run_without_exclude_filter
            [of timeout_External Update None None False excluding_runtime "''T3''"] h e
    by simp
qed

text \<open>
  C10.  In the impact analysis sequence, the discarded test targets given to the start
  callback and put in the report are the test targets of the list that were not selected,
  without those that \<open>GetNotCoveringTests\<close> returned; the drafted test targets given and
  reported are those that \<open>GetNotCoveringTests\<close> returned.  So no test target is both among
  the discarded and among the drafted.
\<close>

theorem discarded_reported_disjoint_from_drafted:
  "(\<forall>selected discarded drafted.
      fst (snd (ImpactAnalysisTestSequence ext pol tto gto cb rt)) = Some (selected, discarded, drafted) \<longrightarrow>
        set discarded \<inter> set drafted = {} \<and>
        drafted = GetNotCoveringTests (m_testTargets rt) (m_dynamicDependencyMap rt) \<and>
        discarded = filter (\<lambda>t. t \<notin> set drafted)
                      (filter (\<lambda>t. t \<notin> set (snd (SelectTestTargets ext (m_dynamicDependencyMap rt))))
                         (m_testTargets rt))) \<and>
   (\<forall>report.
      snd (snd (ImpactAnalysisTestSequence ext pol tto gto cb rt)) = Inr report \<longrightarrow>
        set (report_discardedTests report) \<inter> set (report_draftedTests report) = {} \<and>
        report_draftedTests report = GetNotCoveringTests (m_testTargets rt) (m_dynamicDependencyMap rt) \<and>
        report_discardedTests report
          = filter (\<lambda>t. t \<notin> set (report_draftedTests report))
              (filter (\<lambda>t. t \<notin> set (snd (SelectTestTargets ext (m_dynamicDependencyMap rt))))
                 (m_testTargets rt))) \<and>
   (cb \<longrightarrow> fst (snd (ImpactAnalysisTestSequence ext pol tto gto cb rt)) \<noteq> None)"
proof (intro conjI allI impI)
  fix selected discarded drafted
  assume "fst (snd (ImpactAnalysisTestSequence ext pol tto gto cb rt)) = Some (selected, discarded, drafted)"
  then have d: "drafted = GetNotCoveringTests (m_testTargets rt) (m_dynamicDependencyMap rt)"
    and c: "discarded = filter (\<lambda>t. t \<notin> set drafted)
                      (filter (\<lambda>t. t \<notin> set (snd (SelectTestTargets ext (m_dynamicDependencyMap rt))))
                         (m_testTargets rt))"
    unfolding ImpactAnalysis_unfold
    by (auto simp: Wrapper_observed(1) split: if_splits)
  show "drafted = GetNotCoveringTests (m_testTargets rt) (m_dynamicDependencyMap rt)" by (rule d)
  show "discarded = filter (\<lambda>t. t \<notin> set drafted)
                      (filter (\<lambda>t. t \<notin> set (snd (SelectTestTargets ext (m_dynamicDependencyMap rt))))
                         (m_testTargets rt))" by (rule c)
  show "set discarded \<inter> set drafted = {}" by (subst c) auto
next
  fix report
  assume "snd (snd (ImpactAnalysisTestSequence ext pol tto gto cb rt)) = Inr report"
  then have r: "report_draftedTests report = GetNotCoveringTests (m_testTargets rt) (m_dynamicDependencyMap rt) \<and>
     report_discardedTests report
          = filter (\<lambda>t. t \<notin> set (GetNotCoveringTests (m_testTargets rt) (m_dynamicDependencyMap rt)))
              (filter (\<lambda>t. t \<notin> set (snd (SelectTestTargets ext (m_dynamicDependencyMap rt))))
                 (m_testTargets rt))"
    unfolding ImpactAnalysis_unfold
    by (auto split: if_splits dest!: Wrapper_observed(2))
  show "report_draftedTests report = GetNotCoveringTests (m_testTargets rt) (m_dynamicDependencyMap rt)"
    using r by simp
  show "report_discardedTests report
          = filter (\<lambda>t. t \<notin> set (report_draftedTests report))
              (filter (\<lambda>t. t \<notin> set (snd (SelectTestTargets ext (m_dynamicDependencyMap rt))))
                 (m_testTargets rt))"
    using r by simp
  have "set (filter (\<lambda>t. t \<notin> set (report_draftedTests report))
              (filter (\<lambda>t. t \<notin> set (snd (SelectTestTargets ext (m_dynamicDependencyMap rt))))
                 (m_testTargets rt))) \<inter> set (report_draftedTests report) = {}"
    by auto
  then show "set (report_discardedTests report) \<inter> set (report_draftedTests report) = {}"
    using r by simp
next
  assume cb
  then show "fst (snd (ImpactAnalysisTestSequence ext pol tto gto cb rt)) \<noteq> None"
    unfolding ImpactAnalysis_unfold by (simp add: Wrapper_observed(1))
qed

theorem discarded_reported_witness:
  "fst (snd (ImpactAnalysisTestSequence timeout_External
               Update None None True
               (scenario_runtime\<lparr>m_testTargets := [''T1'', ''T2'', ''T3'', ''T4'']\<rparr>)))
     = Some (([''T1''], []), [''T2''], [''T3'', ''T4'']) \<and>
   set [''T2''] \<inter> set [''T3'', ''T4''] = {} \<and>
   GetNotCoveringTests (m_testTargets (scenario_runtime\<lparr>m_testTargets := [''T1'', ''T2'', ''T3'', ''T4'']\<rparr>))
       (m_dynamicDependencyMap (scenario_runtime\<lparr>m_testTargets := [''T1'', ''T2'', ''T3'', ''T4'']\<rparr>))
     = [''T3'', ''T4'']"
proof -
  have s: "fst (snd (ImpactAnalysisTestSequence timeout_External
               Update None None True
               (scenario_runtime\<lparr>m_testTargets := [''T1'', ''T2'', ''T3'', ''T4'']\<rparr>)))
     = Some (([''T1''], []), [''T2''], [''T3'', ''T4''])"
    by (simp add: sequence_evaluation)
  from discarded_reported_disjoint_from_drafted
         [of timeout_External Update None None True
             "scenario_runtime\<lparr>m_testTargets := [''T1'', ''T2'', ''T3'', ''T4'']\<rparr>"] s
  have "set [''T2''] \<inter> set [''T3'', ''T4''] = {} \<and>
        [''T3'', ''T4''] = GetNotCoveringTests (m_testTargets (scenario_runtime\<lparr>m_testTargets := [''T1'', ''T2'', ''T3'', ''T4'']\<rparr>))
       (m_dynamicDependencyMap (scenario_runtime\<lparr>m_testTargets := [''T1'', ''T2'', ''T3'', ''T4'']\<rparr>))"
    by blast
  with s show ?thesis by simp
qed

subsection \<open>Global timeout\<close>

lemma ImpactAnalysis_timeouts:
  "c \<in> set (drop (length (m_testEngine rt))
              (m_testEngine (fst (ImpactAnalysisTestSequence ext pol tto gto cb rt))))
     \<Longrightarrow> call_globalTimeout c = gto"
  by (auto simp: ImpactAnalysis_engine split: if_splits)

lemma remaining_budget:
  "(if elapsed < timeout then timeout - elapsed else 0) = max 0 (timeout - elapsed)"
  for elapsed timeout :: int
  by auto

lemma fst_update_case:
  "fst (case p of (r, Some e) \<Rightarrow> (r, x, Inl e) | (r, None) \<Rightarrow> (r, x, Inr y)) = fst p"
  by (cases p; cases "snd p") auto

lemma Safe_timeouts:
  assumes "included = filter (\<lambda>t. \<not> IsTestTargetFullyExcluded (m_instrumentedTestTargetExcludeList rt) t)
                        (snd (SelectTestTargets ext (m_dynamicDependencyMap rt)))"
    and "discarded = filter (\<lambda>t. \<not> IsTestTargetFullyExcluded (m_regularTestTargetExcludeList rt) t)
                        (filter (\<lambda>t. t \<notin> set (snd (SelectTestTargets ext (m_dynamicDependencyMap rt))))
                           (m_testTargets rt))"
    and "drafted = GetNotCoveringTests (m_testTargets rt) (m_dynamicDependencyMap rt)"
    and "included \<noteq> []" "discarded \<noteq> []" "drafted \<noteq> []"
    and "selected_run = InstrumentedRunCall included tto (Some timeout)"
    and "selected_elapsed = snd (snd (InstrumentedRun_answer ext (m_testEngine rt @ [selected_run])))"
    and "discarded_run = RegularRunCall discarded tto (Some (max 0 (timeout - selected_elapsed)))"
    and "discarded_elapsed
           = snd (snd (RegularRun_answer ext (m_testEngine rt @ [selected_run, discarded_run])))"
  shows "m_testEngine (fst (SafeImpactAnalysisTestSequence ext tto (Some timeout) cb rt))
           = m_testEngine rt @
               [selected_run, discarded_run,
                InstrumentedRunCall drafted tto
                  (Some (max 0 (timeout - (selected_elapsed + discarded_elapsed))))]"
proof -
  obtain sel disc rt1 where s: "SelectCoveringTestTargets ext rt = ((sel, disc), rt1)"
    by (cases "SelectCoveringTestTargets ext rt") auto
  have f: "sel = snd (SelectTestTargets ext (m_dynamicDependencyMap rt))"
    "disc = filter (\<lambda>t. t \<notin> set (snd (SelectTestTargets ext (m_dynamicDependencyMap rt)))) (m_testTargets rt)"
    "m_instrumentedTestTargetExcludeList rt1 = m_instrumentedTestTargetExcludeList rt"
    "m_regularTestTargetExcludeList rt1 = m_regularTestTargetExcludeList rt"
    "m_testEngine rt1 = m_testEngine rt"
    using Select_keeps[of ext rt] by (simp_all add: s)
  show ?thesis
    using assms(4-6)
    unfolding assms(1-3,7-10)
    by (simp add: SafeImpactAnalysisTestSequence_def Let_def s f gather_InstrumentedRun
          gather_RegularRun SelectTestTargetsByExcludeList_def remaining_budget
          fst_update_case updateCoverage_keeps)
qed

text \<open>
  C1 fails on the impact analysis sequence.  With a global timeout of 1000 ms and a selected
  run that takes 900 ms, the wrapper asks the engine for the drafted run with the global
  timeout of 1000 ms, under either map policy; the remaining budget is 100 ms.  The local
  \<open>sequenceTimeout\<close> holds the remaining budget but is not what the wrapper's lambda passes.
  At the same input the safe sequence passes the remaining budget: 100 ms to the discarded
  run after the 900 ms of the selected run, and 0 ms to the drafted run after the further
  100 ms of the discarded run.  (\<open>ImpactAnalysis_timeouts\<close> and \<open>Safe_timeouts\<close> above
  say the same of every input.)
\<close>

theorem impact_analysis_drafted_run_gets_global_timeout:
  "ImpactAnalysisTestSequence timeout_External Update None (Some 1000) False scenario_runtime
     = (scenario_runtime
          \<lparr>m_testEngine := [InstrumentedRunCall [''T1''] None (Some 1000),
                            InstrumentedRunCall [''T3''] None (Some 1000)]\<rparr>,
        None,
        Inr \<lparr>report_testTargetTimeout = None, report_globalTimeout = Some 1000,
              report_selectedTests = ([''T1''], []), report_discardedTests = [''T2''],
              report_draftedTests = [''T3''],
              report_selectedTestRun =
                \<lparr>run_result = Success, run_duration = 900,
                  run_jobs = [\<lparr>GetTestTarget = ''T1'', GetCommandString = ''T1.exe'',
                               GetTestResult = AllTestsPass\<rparr>]\<rparr>,
              report_draftedTestRun =
                \<lparr>run_result = TestSequenceResult.Timeout, run_duration = 100, run_jobs = []\<rparr>\<rparr>) \<and>
   m_testEngine (fst (ImpactAnalysisTestSequence timeout_External DynamicDependencyMapPolicy.Discard
                        None (Some 1000) False scenario_runtime))
     = [RegularRunCall [''T1''] None (Some 1000), RegularRunCall [''T3''] None (Some 1000)] \<and>
   m_testEngine (fst (SafeImpactAnalysisTestSequence timeout_External None (Some 1000) False
                        scenario_runtime))
     = [InstrumentedRunCall [''T1''] None (Some 1000),
        RegularRunCall [''T2'', ''T3''] None (Some 100),
        InstrumentedRunCall [''T3''] None (Some 0)]"
  by (simp add: sequence_evaluation TestEngineJob.truncate_def)

end
